theory Spec2Isabelle
  imports Complex_Main
begin

section \<open>JavaScript values and strings\<close>

text \<open>
  A JavaScript string is a sequence of UTF-16 code units; a code unit is modelled as a
  natural number. \<open>js\<close> turns an ASCII literal into such a sequence. Numbers (weights,
  confidences, ratios) are modelled as exact rationals: every constant of the program
  (0.05, 0.3, 0.4, 0.5, 0.6, 0.7, 0.85, 0.95, the weights and their halves) is compared
  exactly, and rounding of IEEE doubles is not modelled.
\<close>

type_synonym jsstring = "nat list"

definition js :: "string \<Rightarrow> jsstring" where
  "js s = map of_char s"

text \<open>The values a field such as \<open>channel.tvgId\<close> can hold, as far as \<open>typeof\<close> and
  truthiness distinguish them.\<close>

datatype jsval = JUndefined | JNull | JBool bool | JNum rat | JStr jsstring | JObject

text \<open>White space and line terminators, as matched by \<open>\s\<close> and removed by
  \<open>String.prototype.trim\<close>.\<close>

definition isWhiteSpace :: "nat \<Rightarrow> bool" where
  "isWhiteSpace c \<longleftrightarrow>
     (9 \<le> c \<and> c \<le> 13) \<or> c = 32 \<or> c = 160 \<or> c = 5760 \<or> (8192 \<le> c \<and> c \<le> 8202)
     \<or> c = 8232 \<or> c = 8233 \<or> c = 8239 \<or> c = 8287 \<or> c = 12288 \<or> c = 65279"

definition isLineTerminator :: "nat \<Rightarrow> bool" where
  "isLineTerminator c \<longleftrightarrow> c = 10 \<or> c = 13 \<or> c = 8232 \<or> c = 8233"

definition trim :: "jsstring \<Rightarrow> jsstring" where
  "trim s = rev (dropWhile isWhiteSpace (rev (dropWhile isWhiteSpace s)))"

definition isUpper :: "nat \<Rightarrow> bool" where
  "isUpper c \<longleftrightarrow> 65 \<le> c \<and> c \<le> 90"

definition isLower :: "nat \<Rightarrow> bool" where
  "isLower c \<longleftrightarrow> 97 \<le> c \<and> c \<le> 122"

definition isDigit :: "nat \<Rightarrow> bool" where
  "isDigit c \<longleftrightarrow> 48 \<le> c \<and> c \<le> 57"

definition isAlpha :: "nat \<Rightarrow> bool" where
  "isAlpha c \<longleftrightarrow> isLower c \<or> isUpper c"

definition isAlnum :: "nat \<Rightarrow> bool" where
  "isAlnum c \<longleftrightarrow> isAlpha c \<or> isDigit c"

definition isAlnumHyphen :: "nat \<Rightarrow> bool" where
  "isAlnumHyphen c \<longleftrightarrow> isAlnum c \<or> c = 45"

text \<open>\<open>\w\<close> without the unicode flag: \<open>[A-Za-z0-9_]\<close>.\<close>

definition isWordChar :: "nat \<Rightarrow> bool" where
  "isWordChar c \<longleftrightarrow> isAlnum c \<or> c = 95"

text \<open>
  \<open>String.prototype.toLowerCase\<close>. The ASCII capitals are mapped to their small letters.
  Two code units outside ASCII have a lower case that contains an ASCII letter and are
  mapped as Unicode says: U+212A (Kelvin sign) to \<open>k\<close>, and U+0130 to \<open>i\<close> followed by
  U+0307. Every other code unit is left as it is: the remaining Unicode case pairs map
  letters outside ASCII to letters outside ASCII, which no pattern of this program tells
  apart.
\<close>

definition lowerUnit :: "nat \<Rightarrow> jsstring" where
  "lowerUnit c =
     (if isUpper c then [c + 32]
      else if c = 8490 then [107]
      else if c = 304 then [105, 775]
      else [c])"

definition toLowerCase :: "jsstring \<Rightarrow> jsstring" where
  "toLowerCase s = concat (map lowerUnit s)"

text \<open>\<open>s.split(sep)\<close> for a separator of one code unit: never the empty array.\<close>

fun splitOn :: "nat \<Rightarrow> jsstring \<Rightarrow> jsstring list" where
  "splitOn sep [] = [[]]"
| "splitOn sep (c # cs) =
     (if c = sep then [] # splitOn sep cs
      else (case splitOn sep cs of
              [] \<Rightarrow> [[c]]
            | p # ps \<Rightarrow> (c # p) # ps))"

text \<open>\<open>xs.join(' ')\<close>.\<close>

fun joinSpace :: "jsstring list \<Rightarrow> jsstring" where
  "joinSpace [] = []"
| "joinSpace [x] = x"
| "joinSpace (x # y # ys) = x @ 32 # joinSpace (y # ys)"

text \<open>Truthiness of an optional string: \<open>undefined\<close>, \<open>null\<close> and \<open>''\<close> are falsy.\<close>

fun truthy :: "jsstring option \<Rightarrow> bool" where
  "truthy None = False"
| "truthy (Some s) = (s \<noteq> [])"

text \<open>\<open>x || ''\<close> and \<open>x || null\<close>.\<close>

definition orEmpty :: "jsstring option \<Rightarrow> jsstring" where
  "orEmpty x = (case x of None \<Rightarrow> [] | Some s \<Rightarrow> s)"

definition orNull :: "jsstring option \<Rightarrow> jsstring option" where
  "orNull x = (if truthy x then x else None)"


section \<open>Regular expressions\<close>

text \<open>
  The regular expressions of the program are written as terms of \<open>re\<close>, one constructor
  per construct used in the source: a character class, the empty pattern, sequence,
  alternative, the (greedy) star, a negative lookahead \<open>(?!r)\<close>, the word boundary
  \<open>\b\<close>, and the anchors \<open>^\<close> and \<open>$\<close> (no pattern of the program has the multiline
  flag).

  A position of the matcher is the code unit just before it (\<open>None\<close> at the start of
  the input) and the input that remains. \<open>ends r st\<close> lists every position at which a
  match of \<open>r\<close> that begins at \<open>st\<close> can end, as the backtracking matcher of the language
  would find them. An iteration of a star that consumes nothing is rejected, as
  ECMAScript does.
\<close>

datatype re = Cls "nat \<Rightarrow> bool" | Eps | Seq re re | Alt re re | Star re
  | NotAhead re | WordB | Bol | Eol

type_synonym pos = "nat option \<times> jsstring"

function ends :: "re \<Rightarrow> pos \<Rightarrow> pos list" where
  "ends (Cls P) (p, []) = []"
| "ends (Cls P) (p, c # cs) = (if P c then [(Some c, cs)] else [])"
| "ends Eps st = [st]"
| "ends (Seq a b) st = concat (map (ends b) (ends a st))"
| "ends (Alt a b) st = ends a st @ ends b st"
| "ends (Star a) st =
     st # concat (map (ends (Star a))
                    (filter (\<lambda>m. length (snd m) < length (snd st)) (ends a st)))"
| "ends (NotAhead a) st = (if ends a st = [] then [st] else [])"
| "ends WordB (p, cs) =
     (if (case p of None \<Rightarrow> False | Some c \<Rightarrow> isWordChar c)
         \<noteq> (case cs of [] \<Rightarrow> False | c # _ \<Rightarrow> isWordChar c)
      then [(p, cs)] else [])"
| "ends Bol (p, cs) = (if p = None then [(p, cs)] else [])"
| "ends Eol (p, cs) = (if cs = [] then [(p, cs)] else [])"
  by pat_completeness auto
termination
  apply (relation "measures [\<lambda>(r, st). size r, \<lambda>(r, st). length (snd st)]")
  apply simp_all
  done

text \<open>\<open>r.test(s)\<close> for a pattern without the global flag: the start positions are
  tried from left to right (\<open>p\<close> is the code unit before the position), and the result
  says whether a match was found at one of them.\<close>

fun searchFrom :: "re \<Rightarrow> nat option \<Rightarrow> jsstring \<Rightarrow> bool" where
  "searchFrom r p [] = (ends r (p, []) \<noteq> [])"
| "searchFrom r p (c # cs) = (ends r (p, c # cs) \<noteq> [] \<or> searchFrom r (Some c) cs)"

definition re_test :: "re \<Rightarrow> jsstring \<Rightarrow> bool" where
  "re_test r s = searchFrom r None s"

text \<open>Derived forms: \<open>r?\<close>, \<open>r+\<close>, \<open>r{n}\<close>, \<open>r{n,}\<close>, one code unit, any code unit
  but a line terminator (\<open>.\<close>), a sequence and an alternative of several patterns.\<close>

definition Opt :: "re \<Rightarrow> re" where
  "Opt r = Alt r Eps"

definition Plus :: "re \<Rightarrow> re" where
  "Plus r = Seq r (Star r)"

fun Times :: "nat \<Rightarrow> re \<Rightarrow> re" where
  "Times 0 r = Eps"
| "Times (Suc n) r = Seq r (Times n r)"

definition AtLeast :: "nat \<Rightarrow> re \<Rightarrow> re" where
  "AtLeast n r = Seq (Times n r) (Star r)"

definition Chr :: "nat \<Rightarrow> re" where
  "Chr c = Cls (\<lambda>x. x = c)"

definition Dot :: re where
  "Dot = Cls (\<lambda>x. \<not> isLineTerminator x)"

definition seqs :: "re list \<Rightarrow> re" where
  "seqs rs = foldr Seq rs Eps"

fun alts :: "re list \<Rightarrow> re" where
  "alts [] = NotAhead Eps"
| "alts [r] = r"
| "alts (r # rs) = Alt r (alts rs)"

text \<open>A literal of the pattern text, and the same under the \<open>i\<close> flag: without the
  unicode flag a letter of the pattern matches its two ASCII cases and nothing else.\<close>

definition lit :: "string \<Rightarrow> re" where
  "lit s = seqs (map (\<lambda>c. Chr (of_char c)) s)"

definition ciUnit :: "nat \<Rightarrow> nat \<Rightarrow> bool" where
  "ciUnit c x \<longleftrightarrow> x = c \<or> (isLower c \<and> x + 32 = c) \<or> (isUpper c \<and> x = c + 32)"

definition liti :: "string \<Rightarrow> re" where
  "liti s = seqs (map (\<lambda>c. Cls (ciUnit (of_char c))) s)"


section \<open>Domain extraction\<close>

text \<open>\<open>/^[a-zA-Z0-9]([a-zA-Z0-9-]*[a-zA-Z0-9])?(\.[a-zA-Z]{2,})+$/\<close>\<close>

definition domainRe :: re where
  "domainRe =
     seqs [Bol, Cls isAlnum, Opt (Seq (Star (Cls isAlnumHyphen)) (Cls isAlnum)),
           Plus (Seq (Chr 46) (AtLeast 2 (Cls isAlpha))), Eol]"

text \<open>\<open>extractDomain(tvgId)\<close>; \<open>None\<close> is \<open>null\<close>. The function has no other exit.\<close>

definition extractDomain :: "jsval \<Rightarrow> jsstring option" where
  "extractDomain tvgId =
     (case tvgId of
        JStr s \<Rightarrow>
          (if s = [] then None
           else (case splitOn 64 s of
                   [] \<Rightarrow> None
                 | p0 # _ \<Rightarrow>
                     (let domain = trim p0
                      in if domain \<noteq> [] \<and> re_test domainRe domain then Some domain
                         else None)))
      | _ \<Rightarrow> None)"


section \<open>Object literals\<close>

text \<open>
  An object literal is an association list in the order of its keys (none of the keys of
  this program is an integer index, so \<open>Object.entries\<close> lists them in that order).
  Reading a property \<open>obj[k]\<close> of an object literal finds the literal's own key, or else a
  property that every plain object inherits from \<open>Object.prototype\<close>; the value of such a
  property is a function (or, for \<open>__proto__\<close>, the prototype object), which is truthy.
\<close>

definition protoKeys :: "jsstring list" where
  "protoKeys = map js [''constructor'', ''__proto__'', ''hasOwnProperty'', ''isPrototypeOf'',
     ''propertyIsEnumerable'', ''toLocaleString'', ''toString'', ''valueOf'',
     ''__defineGetter__'', ''__defineSetter__'', ''__lookupGetter__'', ''__lookupSetter__'']"

datatype 'a propval = Absent | Own 'a | Inherited jsstring

definition objGet :: "(jsstring \<times> 'a) list \<Rightarrow> jsstring \<Rightarrow> 'a propval" where
  "objGet obj k =
     (case map_of obj k of
        Some v \<Rightarrow> Own v
      | None \<Rightarrow> if k \<in> set protoKeys then Inherited k else Absent)"

text \<open>The string that an inherited value becomes when it is used as a property key
  (\<open>String(Object)\<close> and the like, in the form Node.js prints them).\<close>

definition inheritedToString :: "jsstring \<Rightarrow> jsstring" where
  "inheritedToString k =
     (if k = js ''__proto__'' then js ''[object Object]''
      else js ''function '' @ (if k = js ''constructor'' then js ''Object'' else k)
           @ js ''() { [native code] }'')"


section \<open>Language tables\<close>

text \<open>\<open>LANGUAGE_CODES\<close>: full language name to ISO 639-1 code.\<close>

definition LANGUAGE_CODES :: "(jsstring \<times> jsstring) list" where
  "LANGUAGE_CODES =
     [(js ''tamil'', js ''ta''), (js ''telugu'', js ''te''), (js ''hindi'', js ''hi''),
      (js ''kannada'', js ''kn''), (js ''malayalam'', js ''ml''), (js ''english'', js ''en''),
      (js ''bengali'', js ''bn''), (js ''marathi'', js ''mr''), (js ''punjabi'', js ''pa''),
      (js ''gujarati'', js ''gu''), (js ''urdu'', js ''ur''), (js ''bhojpuri'', js ''bh''),
      (js ''assamese'', js ''as''), (js ''odia'', js ''or''), (js ''unknown'', js ''unknown'')]"

text \<open>\<open>FRANC_TO_LANGUAGE_NAME\<close>; the value of \<open>und\<close> is \<open>null\<close>.\<close>

definition FRANC_TO_LANGUAGE_NAME :: "(jsstring \<times> jsstring option) list" where
  "FRANC_TO_LANGUAGE_NAME =
     [(js ''tam'', Some (js ''tamil'')), (js ''tel'', Some (js ''telugu'')),
      (js ''hin'', Some (js ''hindi'')), (js ''kan'', Some (js ''kannada'')),
      (js ''mal'', Some (js ''malayalam'')), (js ''eng'', Some (js ''english'')),
      (js ''ben'', Some (js ''bengali'')), (js ''mar'', Some (js ''marathi'')),
      (js ''pan'', Some (js ''punjabi'')), (js ''guj'', Some (js ''gujarati'')),
      (js ''urd'', Some (js ''urdu'')), (js ''asm'', Some (js ''assamese'')),
      (js ''ori'', Some (js ''odia'')), (js ''bho'', Some (js ''bhojpuri'')),
      (js ''und'', None)]"

text \<open>The first entry of a table of patterns that matches: the loop
  \<open>for (const [key, pattern] of Object.entries(table)) if (pattern.test(s)) return key\<close>.\<close>

fun firstMatch :: "(jsstring \<times> re) list \<Rightarrow> jsstring \<Rightarrow> jsstring option" where
  "firstMatch [] s = None"
| "firstMatch ((k, r) # rest) s = (if re_test r s then Some k else firstMatch rest s)"


section \<open>Normalising a language value\<close>

text \<open>
  \<open>normalizeLanguageCode(value)\<close> for a string \<open>value\<close>. The result is \<open>null\<close>
  (\<open>Absent\<close>), a string (\<open>Own\<close>), or, when the lower-cased value names a property that
  \<open>langMap\<close> inherits, the inherited object: \<open>langMap[normalized] || null\<close> reads the
  prototype chain. The capture group of \<open>/^([a-z]{2})[-_]/\<close> is the first two code units.
\<close>

definition langMap :: "(jsstring \<times> jsstring) list" where
  "langMap =
     [(js ''tamil'', js ''ta''), (js ''telugu'', js ''te''), (js ''hindi'', js ''hi''),
      (js ''kannada'', js ''kn''), (js ''malayalam'', js ''ml''), (js ''english'', js ''en''),
      (js ''bengali'', js ''bn''), (js ''bangla'', js ''bn''), (js ''marathi'', js ''mr''),
      (js ''punjabi'', js ''pa''), (js ''gujarati'', js ''gu''), (js ''urdu'', js ''ur''),
      (js ''assamese'', js ''as''), (js ''odia'', js ''or''), (js ''oriya'', js ''or'')]"

definition isoRe :: re where
  "isoRe = seqs [Bol, Times 2 (Cls isLower), Eol]"

definition localeRe :: re where
  "localeRe = seqs [Bol, Times 2 (Cls isLower), Cls (\<lambda>c. c = 45 \<or> c = 95)]"

definition normalizeLanguageCode :: "jsstring \<Rightarrow> jsstring propval" where
  "normalizeLanguageCode v =
     (if v = [] then Absent
      else (let normalized = trim (toLowerCase v)
            in if re_test isoRe normalized then Own normalized
               else if re_test localeRe normalized then Own (take 2 normalized)
               else objGet langMap normalized))"


section \<open>Signals and their aggregation\<close>

text \<open>A detection signal. The body-text signal carries two more fields, which the
  aggregation does not read.\<close>

record signal =
  source :: jsstring
  sigvalue :: jsstring
  weight :: rat
  sconfidence :: "rat option"
  smethod :: "jsstring option"

text \<open>\<open>scores[k] = (scores[k] || 0) + w\<close> on an object whose keys keep the order in which
  they were first written.\<close>

fun addScore :: "(jsstring \<times> rat) list \<Rightarrow> jsstring \<Rightarrow> rat \<Rightarrow> (jsstring \<times> rat) list" where
  "addScore [] k w = [(k, w)]"
| "addScore ((k', s) # rest) k w =
     (if k' = k then (k', s + w) # rest else (k', s) # addScore rest k w)"

text \<open>The key under which a truthy result of \<open>normalizeLanguageCode\<close> is stored.\<close>

fun scoreKey :: "jsstring propval \<Rightarrow> jsstring option" where
  "scoreKey Absent = None"
| "scoreKey (Own c) = (if c = [] then None else Some c)"
| "scoreKey (Inherited k) = Some (inheritedToString k)"

definition scoreSignal :: "(jsstring \<times> rat) list \<Rightarrow> signal \<Rightarrow> (jsstring \<times> rat) list" where
  "scoreSignal scores sg =
     (case scoreKey (normalizeLanguageCode (sigvalue sg)) of
        None \<Rightarrow> scores
      | Some k \<Rightarrow> addScore scores k (weight sg))"

text \<open>\<open>aggregateLanguageSignals(signals)\<close>. \<open>Array.prototype.sort\<close> is stable; the
  comparator \<open>(a, b) => b[1] - a[1]\<close> orders by descending score.\<close>

definition aggregateLanguageSignals :: "signal list \<Rightarrow> jsstring option" where
  "aggregateLanguageSignals signals =
     (if signals = [] then None
      else (let scores = foldl scoreSignal [] signals
            in case sort_key (\<lambda>e. - snd e) scores of
                 [] \<Rightarrow> None
               | e # _ \<Rightarrow> Some (fst e)))"


section \<open>Language hints in descriptions and resource URLs\<close>

text \<open>\<open>\s+(language|channel|tv|music|news|cinema|movies|satellite)\b\<close>, the tail of
  every pattern of \<open>languageMentions\<close>.\<close>

definition mentionTail :: re where
  "mentionTail =
     seqs [Plus (Cls isWhiteSpace),
           alts [liti ''language'', liti ''channel'', liti ''tv'', liti ''music'', liti ''news'',
                 liti ''cinema'', liti ''movies'', liti ''satellite''],
           WordB]"

definition languageMentions :: "(jsstring \<times> re) list" where
  "languageMentions =
     [(js ''tamil'', seqs [WordB, alts [liti ''tamil'', liti ''tamizh''], mentionTail]),
      (js ''telugu'', seqs [WordB, liti ''telugu'', mentionTail]),
      (js ''hindi'', seqs [WordB, liti ''hindi'', mentionTail]),
      (js ''kannada'', seqs [WordB, liti ''kannada'', mentionTail]),
      (js ''malayalam'', seqs [WordB, liti ''malayalam'', mentionTail]),
      (js ''bengali'', seqs [WordB, alts [liti ''bengali'', liti ''bangla''], mentionTail]),
      (js ''marathi'', seqs [WordB, liti ''marathi'', mentionTail]),
      (js ''gujarati'', seqs [WordB, liti ''gujarati'', mentionTail]),
      (js ''punjabi'', seqs [WordB, liti ''punjabi'', mentionTail])]"

text \<open>\<open>detectLanguageFromDescription(description)\<close> for a string.\<close>

definition detectLanguageFromDescription :: "jsstring \<Rightarrow> jsstring option" where
  "detectLanguageFromDescription description =
     (if description = [] then None
      else firstMatch languageMentions (toLowerCase description))"

text \<open>\<open>[-_]\<close>\<close>

definition hyphenOrUnderscore :: re where
  "hyphenOrUnderscore = Cls (\<lambda>c. c = 45 \<or> c = 95)"

definition resourcePatterns :: "(jsstring \<times> re) list" where
  "resourcePatterns =
     [(js ''ta'', alts [liti ''tamil'', seqs [liti ''ta'', hyphenOrUnderscore, liti ''in'']]),
      (js ''te'', alts [liti ''telugu'', seqs [liti ''te'', hyphenOrUnderscore, liti ''in'']]),
      (js ''hi'', alts [liti ''hindi'', seqs [liti ''hi'', hyphenOrUnderscore, liti ''in'']]),
      (js ''kn'', alts [liti ''kannada'', seqs [liti ''kn'', hyphenOrUnderscore, liti ''in'']]),
      (js ''ml'', alts [liti ''malayalam'', seqs [liti ''ml'', hyphenOrUnderscore, liti ''in'']]),
      (js ''bn'', alts [liti ''bengali'', liti ''bangla'',
                        seqs [liti ''bn'', hyphenOrUnderscore, liti ''in'']]),
      (js ''mr'', alts [liti ''marathi'', seqs [liti ''mr'', hyphenOrUnderscore, liti ''in'']]),
      (js ''gu'', alts [liti ''gujarati'', seqs [liti ''gu'', hyphenOrUnderscore, liti ''in'']]),
      (js ''pa'', alts [liti ''punjabi'', seqs [liti ''pa'', hyphenOrUnderscore, liti ''in'']]),
      (js ''en'', alts [seqs [liti ''en'', hyphenOrUnderscore, liti ''us''],
                        seqs [liti ''en'', hyphenOrUnderscore, liti ''gb''], liti ''english''])]"

definition detectLanguageFromResources :: "jsstring \<Rightarrow> jsstring option" where
  "detectLanguageFromResources resources = firstMatch resourcePatterns resources"


section \<open>Script and statistical analysis of text\<close>

text \<open>A detection result \<open>{language, confidence, method}\<close>.\<close>

record detection =
  language :: "jsstring option"
  confidence :: rat
  dmethod :: jsstring

text \<open>\<open>text.replace(/\s+/g, ' ')\<close>: every maximal run of white space becomes one space.\<close>

function collapseWs :: "jsstring \<Rightarrow> jsstring" where
  "collapseWs [] = []"
| "collapseWs (c # cs) =
     (if isWhiteSpace c then 32 # collapseWs (dropWhile isWhiteSpace cs)
      else c # collapseWs cs)"
  by pat_completeness auto
termination
  apply (relation "measure length")
  apply (simp_all add: less_Suc_eq_le length_dropWhile_le)
  done

definition cleanText :: "jsstring \<Rightarrow> jsstring" where
  "cleanText t = trim (collapseWs t)"

text \<open>\<open>cleanText.substring(0, 5000)\<close>\<close>

definition sample :: "jsstring \<Rightarrow> jsstring" where
  "sample t = take 5000 (cleanText t)"

text \<open>\<open>(sample.match(/[lo-hi]/g) || []).length\<close>: the code units in a range.\<close>

definition countRange :: "nat \<Rightarrow> nat \<Rightarrow> jsstring \<Rightarrow> nat" where
  "countRange lo hi s = length (filter (\<lambda>c. lo \<le> c \<and> c \<le> hi) s)"

definition scripts :: "jsstring \<Rightarrow> (jsstring \<times> nat) list" where
  "scripts smp =
     [(js ''tamil'', countRange 2944 3071 smp),
      (js ''telugu'', countRange 3072 3199 smp),
      (js ''kannada'', countRange 3200 3327 smp),
      (js ''malayalam'', countRange 3328 3455 smp),
      (js ''devanagari'', countRange 2304 2431 smp),
      (js ''bengali'', countRange 2432 2559 smp),
      (js ''gujarati'', countRange 2688 2815 smp),
      (js ''punjabi'', countRange 2560 2687 smp),
      (js ''latin'', length (filter isAlpha smp))]"

text \<open>The \<open>reduce\<close> that keeps the first script with the highest count, from
  \<open>{script: null, count: 0}\<close>.\<close>

definition maxScript :: "jsstring \<Rightarrow> jsstring option \<times> nat" where
  "maxScript smp =
     foldl (\<lambda>mx e. if snd e > snd mx then (Some (fst e), snd e) else mx) (None, 0) (scripts smp)"

text \<open>\<open>maxScript.count / totalChars\<close>, the winning script's share of the sample.\<close>

definition scriptRatio :: "jsstring \<Rightarrow> rat" where
  "scriptRatio t = of_nat (snd (maxScript (sample t))) / of_nat (length (sample t))"

definition scriptMap :: "(jsstring \<times> jsstring) list" where
  "scriptMap =
     [(js ''tamil'', js ''tamil''), (js ''telugu'', js ''telugu''),
      (js ''kannada'', js ''kannada''), (js ''malayalam'', js ''malayalam''),
      (js ''bengali'', js ''bengali''), (js ''gujarati'', js ''gujarati''),
      (js ''punjabi'', js ''punjabi''), (js ''devanagari'', js ''hindi''),
      (js ''latin'', js ''english'')]"

text \<open>\<open>scriptMap[maxScript.script]\<close>; the script is a key of \<open>scripts\<close> or \<open>null\<close>.\<close>

definition scriptLanguage :: "jsstring option \<Rightarrow> jsstring option" where
  "scriptLanguage sc = (case sc of None \<Rightarrow> None | Some k \<Rightarrow> map_of scriptMap k)"

text \<open>
  \<open>analyzeTextLanguage(text)\<close>. The classifier \<open>franc\<close> is a library outside the
  repository and is a parameter; it returns an ISO 639-3 code of three letters, or
  \<open>und\<close>, so the lookup in \<open>FRANC_TO_LANGUAGE_NAME\<close> never reaches an inherited property.
  The value \<open>null\<close> of \<open>und\<close> and a missing key are both falsy.
\<close>

definition francLanguage :: "(jsstring \<Rightarrow> jsstring) \<Rightarrow> jsstring \<Rightarrow> jsstring option" where
  "francLanguage franc ct =
     (case map_of FRANC_TO_LANGUAGE_NAME (franc ct) of
        Some (Some l) \<Rightarrow> Some l
      | _ \<Rightarrow> None)"

definition analyzeTextLanguage :: "(jsstring \<Rightarrow> jsstring) \<Rightarrow> jsstring \<Rightarrow> detection" where
  "analyzeTextLanguage franc t =
     (let ct = cleanText t
      in if length ct < 50
         then \<lparr>language = None, confidence = 0, dmethod = js ''insufficient-text''\<rparr>
         else
          (let mx = maxScript (sample t);
               ratio = scriptRatio t;
               lang = scriptLanguage (fst mx)
           in if snd mx > 50 \<and> ratio > 5 / 100 \<and> truthy lang \<and> lang \<noteq> Some (js ''english'')
              then \<lparr>language = lang, confidence = min (95 / 100) (ratio * 10),
                    dmethod = js ''script-detection''\<rparr>
              else
               (let fl = francLanguage franc ct
                in if length ct \<ge> 100 \<and> truthy fl \<and> fl \<noteq> Some (js ''english'')
                   then \<lparr>language = fl, confidence = 7 / 10, dmethod = js ''franc-statistical''\<rparr>
                   else if length ct \<ge> 100 \<and> fl = Some (js ''english'') \<and> ratio > 3 / 10
                           \<and> fst mx = Some (js ''latin'')
                   then \<lparr>language = Some (js ''english''), confidence = 6 / 10,
                         dmethod = js ''franc-english''\<rparr>
                   else if snd mx > 20 \<and> truthy lang
                   then \<lparr>language = lang, confidence = 4 / 10, dmethod = js ''script-fallback''\<rparr>
                   else \<lparr>language = None, confidence = 0, dmethod = js ''undetermined''\<rparr>)))"


section \<open>HTML documents\<close>

text \<open>
  The HTML parsers (\<open>cheerio\<close>, \<open>html-to-text\<close>) are libraries outside the repository.
  A document is modelled by what the program reads from it through them: the text of the
  \<open>title\<close> element, the attribute values selected in \<open>detectLanguageFromMetadata\<close>
  (\<open>None\<close> where \<open>attr\<close> returns \<open>undefined\<close>), the \<open>src\<close> and \<open>href\<close> values of the
  \<open>script\<close> and \<open>link\<close> elements, and the visible text that \<open>convert\<close> extracts.
\<close>

record html =
  titleText :: jsstring
  metaDescription :: "jsstring option"
  metaOgTitle :: "jsstring option"
  metaOgDescription :: "jsstring option"
  metaOgSiteName :: "jsstring option"
  htmlLangAttr :: "jsstring option"
  metaContentLanguage :: "jsstring option"
  metaOgLocale :: "jsstring option"
  metaLanguage :: "jsstring option"
  scriptSrcs :: "jsstring list"
  linkHrefs :: "jsstring list"
  convertedText :: jsstring

record metadata =
  title :: "jsstring option"
  description :: "jsstring option"
  ogTitle :: "jsstring option"
  ogDescription :: "jsstring option"
  ogSiteName :: "jsstring option"

record metadataResult =
  mlanguage :: "jsstring option"
  mconfidence :: jsstring
  msignals :: "signal list"
  mmetadata :: metadata

definition mkSignal :: "string \<Rightarrow> jsstring \<Rightarrow> rat \<Rightarrow> signal" where
  "mkSignal src v w =
     \<lparr>source = js src, sigvalue = v, weight = w, sconfidence = None, smethod = None\<rparr>"

text \<open>\<open>if (x) signals.push({source, value: x, weight})\<close>\<close>

definition pushIf :: "string \<Rightarrow> jsstring option \<Rightarrow> rat \<Rightarrow> signal list" where
  "pushIf src x w = (case x of Some v \<Rightarrow> (if v \<noteq> [] then [mkSignal src v w] else []) | None \<Rightarrow> [])"

definition extractMetadata :: "html \<Rightarrow> metadata" where
  "extractMetadata h =
     \<lparr>title = orNull (Some (trim (titleText h))),
      description = orNull (metaDescription h),
      ogTitle = orNull (metaOgTitle h),
      ogDescription = orNull (metaOgDescription h),
      ogSiteName = orNull (metaOgSiteName h)\<rparr>"

definition strongSources :: "jsstring list" where
  "strongSources = map js [''html-lang'', ''meta-content-language'', ''og-locale'', ''meta-language'']"

text \<open>\<open>detectLanguageFromMetadata(html)\<close>\<close>

definition metadataSignals :: "html \<Rightarrow> signal list" where
  "metadataSignals h =
     (let md = extractMetadata h;
          descriptionText = orEmpty (description md) @ js '' '' @ orEmpty (ogDescription md)
                            @ js '' '' @ orEmpty (title md);
          resources = toLowerCase (joinSpace (scriptSrcs h) @ js '' '' @ joinSpace (linkHrefs h))
      in pushIf ''description-hint'' (detectLanguageFromDescription descriptionText) 9
         @ pushIf ''html-lang'' (htmlLangAttr h) 10
         @ pushIf ''meta-content-language'' (metaContentLanguage h) 8
         @ pushIf ''og-locale'' (metaOgLocale h) 7
         @ pushIf ''meta-language'' (metaLanguage h) 7
         @ pushIf ''resource-analysis'' (detectLanguageFromResources resources) 3)"

definition detectLanguageFromMetadata :: "html \<Rightarrow> metadataResult" where
  "detectLanguageFromMetadata h =
     (let signals = metadataSignals h
      in \<lparr>mlanguage = aggregateLanguageSignals signals,
          mconfidence = (if list_ex (\<lambda>s. source s \<in> set strongSources) signals
                         then js ''high'' else js ''low''),
          msignals = signals,
          mmetadata = extractMetadata h\<rparr>)"

text \<open>\<open>detectLanguageFromBodyText(html)\<close>\<close>

definition detectLanguageFromBodyText :: "(jsstring \<Rightarrow> jsstring) \<Rightarrow> html \<Rightarrow> detection" where
  "detectLanguageFromBodyText franc h =
     (let bodyText = convertedText h
      in case detectLanguageFromDescription bodyText of
           Some languageHint \<Rightarrow>
             \<lparr>language = Some languageHint, confidence = 85 / 100,
              dmethod = js ''body-language-mention''\<rparr>
         | None \<Rightarrow> analyzeTextLanguage franc bodyText)"


section \<open>Full-HTML resolution\<close>

text \<open>The metadata signals at half weight (\<open>{...signal, weight: signal.weight * 0.5}\<close>).\<close>

definition halved :: "signal list \<Rightarrow> signal list" where
  "halved sgs = map (\<lambda>sg. sg\<lparr>weight := weight sg * (1 / 2)\<rparr>) sgs"

text \<open>\<open>bodyResult.language === 'en' ? 8 : 15\<close>\<close>

definition bodyWeight :: "jsstring \<Rightarrow> rat" where
  "bodyWeight l = (if l = js ''en'' then 8 else 15)"

text \<open>The signal pushed for a body result whose language is truthy.\<close>

definition bodySignal :: "detection \<Rightarrow> signal list" where
  "bodySignal b =
     (case language b of
        Some l \<Rightarrow>
          (if l \<noteq> []
           then [\<lparr>source = js ''body-text'', sigvalue = l, weight = bodyWeight l,
                  sconfidence = Some (confidence b), smethod = Some (dmethod b)\<rparr>]
           else [])
      | None \<Rightarrow> [])"

text \<open>The local variable \<open>signals\<close> of \<open>detectLanguageFromHTML\<close> once the body text has
  been analysed, as a function of the results of the two analysers.\<close>

definition combinedSignals :: "metadataResult \<Rightarrow> detection \<Rightarrow> signal list" where
  "combinedSignals m b = halved (msignals m) @ bodySignal b"

text \<open>Steps 2 to 4 of \<open>detectLanguageFromHTML\<close> when \<open>options.metadataOnly\<close> is falsy,
  as a function of the results \<open>metadataResult\<close> and \<open>bodyResult\<close> of the two analysers.\<close>

definition resolveBody :: "metadataResult \<Rightarrow> detection \<Rightarrow> jsstring option" where
  "resolveBody m b =
     (if truthy (language b) \<and> mlanguage m = Some (js ''en'') \<and> language b \<noteq> Some (js ''en'')
         \<and> confidence b \<ge> 5 / 10
      then language b
      else if truthy (language b) \<and> confidence b \<ge> 7 / 10
      then language b
      else aggregateLanguageSignals (combinedSignals m b))"

text \<open>\<open>detectLanguageFromHTML(html, options)\<close>; \<open>metadataOnly\<close> is \<open>options.metadataOnly\<close>
  (\<open>False\<close> for the default \<open>{}\<close>).\<close>

definition detectLanguageFromHTML ::
  "(jsstring \<Rightarrow> jsstring) \<Rightarrow> html \<Rightarrow> bool \<Rightarrow> jsstring option" where
  "detectLanguageFromHTML franc h metadataOnly =
     (let metadataResult = detectLanguageFromMetadata h
      in if \<not> metadataOnly
         then resolveBody metadataResult (detectLanguageFromBodyText franc h)
         else mlanguage metadataResult)"


section \<open>Detection from the channel name\<close>

text \<open>\<open>\bw\b\<close> under the \<open>i\<close> flag.\<close>

definition wordRe :: "string \<Rightarrow> re" where
  "wordRe w = seqs [WordB, liti w, WordB]"

definition explicitPatterns :: "(jsstring \<times> re) list" where
  "explicitPatterns =
     [(js ''tamil'', Alt (wordRe ''tamil'') (wordRe ''tamizh'')),
      (js ''telugu'', wordRe ''telugu''),
      (js ''kannada'', wordRe ''kannada''),
      (js ''malayalam'', wordRe ''malayalam''),
      (js ''hindi'', wordRe ''hindi''),
      (js ''bengali'', Alt (wordRe ''bengali'') (wordRe ''bangla'')),
      (js ''marathi'', wordRe ''marathi''),
      (js ''punjabi'', Alt (wordRe ''punjabi'') (wordRe ''punjab'')),
      (js ''gujarati'', wordRe ''gujarati''),
      (js ''english'', wordRe ''english''),
      (js ''urdu'', wordRe ''urdu''),
      (js ''bhojpuri'', wordRe ''bhojpuri'')]"

text \<open>\<open>detectExplicitLanguageInName(channelName)\<close>\<close>

definition detectExplicitLanguageInName :: "jsstring \<Rightarrow> jsstring option" where
  "detectExplicitLanguageInName channelName = firstMatch explicitPatterns (toLowerCase channelName)"

text \<open>\<open>a ?b\<close> and \<open>a.*b\<close> under the \<open>i\<close> flag.\<close>

definition optSpace :: "string \<Rightarrow> string \<Rightarrow> re" where
  "optSpace a b = seqs [liti a, Opt (liti '' ''), liti b]"

definition gap :: "string \<Rightarrow> string \<Rightarrow> re" where
  "gap a b = seqs [liti a, Star Dot, liti b]"

text \<open>\<open>LANGUAGE_PATTERNS\<close>, in the order of its keys.\<close>

definition LANGUAGE_PATTERNS :: "(jsstring \<times> re) list" where
  "LANGUAGE_PATTERNS =
     [(js ''tamil'',
       alts [liti ''tamil'', liti ''sun tv'', liti ''raj tv'', liti ''raj musix'',
             liti ''kalaignar'', liti ''vijay'', liti ''puthiya'', liti ''thanthi'',
             liti ''polimer'', optSpace ''news'' ''7 tamil'', liti ''jaya'', liti ''vasanth'',
             liti ''makkal'', liti ''captain'', liti ''aaseervatham'', liti ''dd tamil'',
             liti ''tamilan'', gap ''blessing'' ''tamil'', gap ''naaptol'' ''tamil'',
             gap ''aastha'' ''tamil'']),
      (js ''telugu'',
       alts [liti ''telugu'', liti ''gemini'', liti ''etv'', liti ''maa'', optSpace ''10'' ''tv'',
             optSpace ''6'' ''tv'', optSpace ''4'' ''tv'', liti ''ntv'', liti ''v6'', liti ''abn'',
             liti ''sakshi'', optSpace ''t'' ''news'', liti ''vanitha'', liti ''zee telugu'',
             liti ''star maa'', gap ''aastha'' ''telugu'']),
      (js ''kannada'',
       alts [liti ''kannada'', liti ''udaya'', liti ''suvarna'', liti ''zee kannada'',
             liti ''colors kannada'', liti ''kasturi'', liti ''dd chandana'',
             seqs [liti ''public'', Star Dot, liti ''tv'', Star Dot, liti ''kannada''],
             seqs [liti ''raj'', Star Dot, liti ''news'', Star Dot, liti ''kannada''],
             gap ''aastha'' ''kannada'']),
      (js ''malayalam'',
       alts [liti ''malayalam'', liti ''asianet'', liti ''mazhavil'', liti ''surya'',
             liti ''kairali'', liti ''manorama'', liti ''amrita'', liti ''jaihind'',
             optSpace ''media'' ''one'', liti ''mathrubhumi'', liti ''safari'', liti ''flowers'',
             liti ''kaumudy'', liti ''zee keralam'', liti ''jeevan'']),
      (js ''hindi'',
       alts [liti ''hindi'',
             Seq (liti ''zee'')
                 (NotAhead (alts [Seq (Star Dot) (liti ''tamil''), Seq (Star Dot) (liti ''telugu''),
                                  Seq (Star Dot) (liti ''kannada''),
                                  Seq (Star Dot) (liti ''malayalam''),
                                  Seq (Star Dot) (liti ''bengali''),
                                  Seq (Star Dot) (liti ''marathi''),
                                  Seq (Star Dot) (liti ''punjabi''),
                                  Seq (Star Dot) (liti ''gujarati'')])),
             liti ''star plus'', liti ''sony'', liti ''colors'', liti ''&tv'', liti ''sab tv'',
             liti ''rishtey'', liti ''dangal'', liti ''aaj tak'', liti ''abp news'', liti ''ndtv'',
             liti ''india tv'', liti ''news18'', liti ''republic'', liti ''times now'',
             liti ''india today'', liti ''dd india'', liti ''dd national'', liti ''dd bharati'',
             optSpace ''news'' ''24'', liti ''epic'', liti ''big magic'', liti ''zing'',
             liti ''dd rajasthan'', liti ''dd uttar'', liti ''dd madhya'', liti ''dd bihar'',
             liti ''dd jharkhand'', liti ''dd delhi'', liti ''dhakad'', liti ''aastha'',
             liti ''sanskar'', liti ''ishara'', liti ''manoranjan'',
             seqs [liti ''9x'', Star Dot,
                   alts [liti ''jalwa'', liti ''jhakaas'', Seq (liti ''m'') WordB]],
             liti ''music india'']),
      (js ''marathi'',
       alts [liti ''marathi'', liti ''zee marathi'', liti ''star pravah'', liti ''colors marathi'',
             liti ''fakt marathi'']),
      (js ''bengali'',
       alts [liti ''bengali'', liti ''bangla'', liti ''jalsha'', liti ''zee bangla'',
             liti ''colors bangla'', liti ''aakaash'', gap ''amar'' ''bangla'', liti ''calcutta'',
             liti ''akd'', liti ''ananda'']),
      (js ''punjabi'',
       alts [liti ''punjab'', liti ''ptc'', liti ''mh1'', liti ''zee punjabi'', liti ''9x tashan'']),
      (js ''gujarati'',
       alts [liti ''gujarati'', liti ''sandesh'', liti ''tv9 gujarati'', liti ''abp asmita'',
             liti ''zee 24 kalak'', liti ''colors gujarati'']),
      (js ''urdu'', alts [liti ''urdu'', liti ''salaam'']),
      (js ''bhojpuri'', alts [liti ''bhojpuri'', liti ''b4u bhojpuri'']),
      (js ''assamese'',
       alts [liti ''assam'', liti ''pratidin'',
             seqs [liti ''news'', Star Dot, liti ''live'', Star Dot, liti ''assam''], liti ''prag'']),
      (js ''odia'', alts [liti ''odia'', liti ''oriya'', liti ''alankar'', liti ''mbc'']),
      (js ''english'',
       alts [liti ''discovery'', liti ''national geographic'', liti ''nat geo'',
             liti ''animal planet'', liti ''bbc'', liti ''cnn'', liti ''fox'', liti ''history'',
             liti ''sony pix'', liti ''&flix'', liti ''&prive'', liti ''movies now'',
             liti ''romedy'', liti ''mtv'', liti ''vh1'', liti ''comedy central'', liti ''nick'',
             liti ''cartoon'', liti ''pogo'', liti ''disney'', liti ''hungama'', liti ''sony yay'',
             liti ''travel xp'', liti ''fashion'', liti ''food'', liti ''tlc'', liti ''living'',
             liti ''espn'', liti ''star sports'', gap ''sony'' ''sports'', liti ''eurosport'',
             liti ''dd sports'', liti ''mirror now'', liti ''wion'', liti ''zoom''])]"

text \<open>\<open>/tv|channel|news|bharat|india|desi/\<close>\<close>

definition genericRe :: re where
  "genericRe = alts [lit ''tv'', lit ''channel'', lit ''news'', lit ''bharat'', lit ''india'',
                     lit ''desi'']"

text \<open>\<open>detectLanguageByPattern(channelName)\<close>\<close>

definition detectLanguageByPattern :: "jsstring \<Rightarrow> jsstring" where
  "detectLanguageByPattern channelName =
     (let name = toLowerCase channelName
      in case firstMatch LANGUAGE_PATTERNS name of
           Some l \<Rightarrow> l
         | None \<Rightarrow> if re_test genericRe name then js ''hindi'' else js ''unknown'')"


section \<open>The cache\<close>

text \<open>
  The class \<open>LanguageCache\<close> of the enrichment script, the cache object that
  \<open>detectLanguage\<close> is called with. \<open>cache\<close> is the object that maps a domain to its
  entry; a domain accepted by \<open>extractDomain\<close> contains a dot and so never names an
  inherited property. \<open>cacheFile\<close> is the content last written to the cache file (a write
  that fails is logged and otherwise ignored by the source, and is not modelled).
\<close>

record cacheEntry =
  elanguage :: jsstring
  esource :: jsstring
  timestamp :: nat

record LanguageCache =
  cache :: "jsstring \<rightharpoonup> cacheEntry"
  pendingWrites :: nat
  dirty :: bool
  cacheFile :: "jsstring \<rightharpoonup> cacheEntry"

definition cacheSaveInterval :: nat where
  "cacheSaveInterval = 20"

definition cache_save :: "LanguageCache \<Rightarrow> LanguageCache" where
  "cache_save c = c\<lparr>cacheFile := cache c, dirty := False\<rparr>"

definition cache_get :: "LanguageCache \<Rightarrow> jsstring \<Rightarrow> cacheEntry option" where
  "cache_get c domain = cache c domain"

definition cache_has :: "LanguageCache \<Rightarrow> jsstring \<Rightarrow> bool" where
  "cache_has c domain \<longleftrightarrow> cache c domain \<noteq> None"

text \<open>\<open>set(domain, language, source)\<close>; \<open>now\<close> is the value of \<open>Date.now()\<close>.\<close>

definition cache_set :: "nat \<Rightarrow> LanguageCache \<Rightarrow> jsstring \<Rightarrow> jsstring \<Rightarrow> jsstring \<Rightarrow> LanguageCache" where
  "cache_set now c domain lang src =
     (let c1 = c\<lparr>cache := (cache c)(domain \<mapsto> \<lparr>elanguage = lang, esource = src, timestamp = now\<rparr>),
                dirty := True, pendingWrites := pendingWrites c + 1\<rparr>
      in if pendingWrites c1 \<ge> cacheSaveInterval then (cache_save c1)\<lparr>pendingWrites := 0\<rparr>
         else c1)"


section \<open>Fetching a site\<close>

text \<open>
  The network is a parameter: the answer to the request number \<open>attempt\<close> for a URL is an
  error (\<open>axios.get\<close> throws: no connection, a timeout, a status of 400 or more), a
  response whose \<open>data\<close> is falsy, or a response with a document. \<open>fetchWebsite\<close>
  returns the document (\<open>None\<close> when it throws, every URL and attempt having failed)
  and the list of the requests it has sent.
\<close>

datatype response = Failed | NoData | Data html

type_synonym network = "jsstring \<Rightarrow> nat \<Rightarrow> response"

definition maxRetries :: nat where
  "maxRetries = 1"

text \<open>The inner loop \<open>for (attempt = 0; attempt <= retries; attempt++)\<close>, with \<open>n\<close>
  iterations left.\<close>

fun tryUrl :: "network \<Rightarrow> jsstring \<Rightarrow> nat \<Rightarrow> nat \<Rightarrow> html option \<times> jsstring list" where
  "tryUrl net url attempt 0 = (None, [])"
| "tryUrl net url attempt (Suc n) =
     (case net url attempt of
        Data h \<Rightarrow> (Some h, [url])
      | _ \<Rightarrow> (case tryUrl net url (attempt + 1) n of (r, reqs) \<Rightarrow> (r, url # reqs)))"

fun tryUrls :: "network \<Rightarrow> jsstring list \<Rightarrow> nat \<Rightarrow> html option \<times> jsstring list" where
  "tryUrls net [] retries = (None, [])"
| "tryUrls net (url # urls) retries =
     (case tryUrl net url 0 (retries + 1) of
        (Some h, reqs) \<Rightarrow> (Some h, reqs)
      | (None, reqs) \<Rightarrow> (case tryUrls net urls retries of (r, reqs') \<Rightarrow> (r, reqs @ reqs')))"

definition fetchWebsite :: "network \<Rightarrow> jsstring \<Rightarrow> nat \<Rightarrow> html option \<times> jsstring list" where
  "fetchWebsite net domain retries =
     tryUrls net [js ''https://www.'' @ domain, js ''https://'' @ domain,
                  js ''http://www.'' @ domain] retries"


section \<open>The top-level decision\<close>

text \<open>The fields of a channel record that \<open>detectLanguage\<close> reads.\<close>

record channel =
  name :: jsstring
  tvgId :: jsval

text \<open>What lies outside one call of \<open>detectLanguage\<close>: the network, the classifier of
  \<open>franc\<close> and the clock.\<close>

record world =
  net_of :: network
  franc_of :: "jsstring \<Rightarrow> jsstring"
  now_of :: nat

text \<open>The value \<open>{language, source}\<close> that \<open>detectLanguage\<close> resolves to, the cache
  after the call and the requests sent during it.\<close>

record outcome =
  rlanguage :: jsstring
  rsource :: jsstring
  cacheAfter :: LanguageCache
  requests :: "jsstring list"

text \<open>Strategy 3, the pattern-based fallback at the end of \<open>detectLanguage\<close>.\<close>

definition patternFallback ::
  "world \<Rightarrow> channel \<Rightarrow> LanguageCache \<Rightarrow> jsstring option \<Rightarrow> jsstring list \<Rightarrow> outcome" where
  "patternFallback w ch c domain reqs =
     (let patternLang = detectLanguageByPattern (name ch)
      in \<lparr>rlanguage = patternLang, rsource = js ''pattern'',
          cacheAfter = (case domain of
                          Some d \<Rightarrow> cache_set (now_of w) c d patternLang (js ''pattern'')
                        | None \<Rightarrow> c),
          requests = reqs\<rparr>)"

text \<open>\<open>detectLanguage(channel, cache)\<close>. An exception thrown by \<open>fetchWebsite\<close> is caught
  and leads to the fallback.\<close>

definition detectLanguage :: "world \<Rightarrow> channel \<Rightarrow> LanguageCache \<Rightarrow> outcome" where
  "detectLanguage w ch c =
     (let domain = extractDomain (tvgId ch)
      in case detectExplicitLanguageInName (name ch) of
           Some explicitLang \<Rightarrow>
             \<lparr>rlanguage = explicitLang, rsource = js ''name-explicit'',
              cacheAfter = (case domain of
                              Some d \<Rightarrow> cache_set (now_of w) c d explicitLang (js ''name-explicit'')
                            | None \<Rightarrow> c),
              requests = []\<rparr>
         | None \<Rightarrow>
            (case domain of
               None \<Rightarrow> patternFallback w ch c domain []
             | Some d \<Rightarrow>
                (case (if cache_has c d then cache_get c d else None) of
                   Some cached \<Rightarrow>
                     \<lparr>rlanguage = elanguage cached, rsource = js ''cached-'' @ esource cached,
                      cacheAfter = c, requests = []\<rparr>
                 | None \<Rightarrow>
                    (case fetchWebsite (net_of w) d maxRetries of
                       (fetched, reqs) \<Rightarrow>
                         (case (case fetched of
                                  Some h \<Rightarrow> detectLanguageFromHTML (franc_of w) h False
                                | None \<Rightarrow> None) of
                            Some detectedLang \<Rightarrow>
                              (if detectedLang \<noteq> [] \<and> detectedLang \<noteq> js ''unknown''
                               then \<lparr>rlanguage = detectedLang, rsource = js ''web'',
                                     cacheAfter = cache_set (now_of w) c d detectedLang (js ''web''),
                                     requests = reqs\<rparr>
                               else patternFallback w ch c domain reqs)
                          | None \<Rightarrow> patternFallback w ch c domain reqs)))))"


section \<open>Vocabulary of the statements and example inputs\<close>

text \<open>The full language names are the keys of \<open>LANGUAGE_CODES\<close> (with the sentinel
  \<open>unknown\<close>); an ISO 639-1 code is written with two small letters.\<close>

definition fullLanguageNames :: "jsstring list" where
  "fullLanguageNames = map fst LANGUAGE_CODES"

definition isTwoLetterCode :: "jsstring \<Rightarrow> bool" where
  "isTwoLetterCode s \<longleftrightarrow> length s = 2 \<and> list_all isLower s"

text \<open>A classifier that never reaches a decision.\<close>

definition noClassifier :: "jsstring \<Rightarrow> jsstring" where
  "noClassifier t = js ''und''"

text \<open>A page with \<open><html lang="en">\<close> whose visible text names its language.\<close>

definition exampleEnglishPage :: html where
  "exampleEnglishPage =
     \<lparr>titleText = js ''Live TV'', metaDescription = None, metaOgTitle = None,
      metaOgDescription = None, metaOgSiteName = None, htmlLangAttr = Some (js ''en''),
      metaContentLanguage = None, metaOgLocale = None, metaLanguage = None,
      scriptSrcs = [], linkHrefs = [], convertedText = js ''A Tamil news channel''\<rparr>"

text \<open>A classifier that always answers English, and a page whose metadata say Hindi
  three times while its visible text is English.\<close>

definition englishClassifier :: "jsstring \<Rightarrow> jsstring" where
  "englishClassifier t = js ''eng''"

definition exampleHindiPage :: html where
  "exampleHindiPage =
     \<lparr>titleText = js ''Live'', metaDescription = None, metaOgTitle = None,
      metaOgDescription = None, metaOgSiteName = None, htmlLangAttr = Some (js ''hi''),
      metaContentLanguage = Some (js ''hi''), metaOgLocale = Some (js ''hi_IN''),
      metaLanguage = None, scriptSrcs = [], linkHrefs = [],
      convertedText = js ''Watch live cricket scores, movie reviews, weather updates and the latest stories from around the world, all day long.''\<rparr>"

text \<open>A text of \<open>n\<close> Tamil letters followed by \<open>m\<close> digits.\<close>

definition mixedText :: "nat \<Rightarrow> nat \<Rightarrow> jsstring" where
  "mixedText n m = replicate n 2950 @ replicate m 48"

text \<open>A page with \<open><html lang="fr">\<close> and too little text to analyse.\<close>

definition exampleFrenchPage :: html where
  "exampleFrenchPage =
     \<lparr>titleText = js ''Direct'', metaDescription = None, metaOgTitle = None,
      metaOgDescription = None, metaOgSiteName = None, htmlLangAttr = Some (js ''fr''),
      metaContentLanguage = None, metaOgLocale = None, metaLanguage = None,
      scriptSrcs = [], linkHrefs = [], convertedText = js ''Bienvenue''\<rparr>"

text \<open>A world without network, a cache that holds an entry for \<open>SunTV.in\<close>, and two
  channels of that domain.\<close>

definition offlineWorld :: world where
  "offlineWorld = \<lparr>net_of = (\<lambda>url attempt. Failed), franc_of = noClassifier, now_of = 0\<rparr>"

definition exampleCache :: LanguageCache where
  "exampleCache =
     \<lparr>cache = [js ''SunTV.in'' \<mapsto> \<lparr>elanguage = js ''hindi'', esource = js ''web'', timestamp = 0\<rparr>],
      pendingWrites = 0, dirty = False, cacheFile = Map.empty\<rparr>"

definition tamilNewsChannel :: channel where
  "tamilNewsChannel = \<lparr>name = js ''XYZ Tamil News'', tvgId = JStr (js ''SunTV.in@HD'')\<rparr>"

definition sunChannel :: channel where
  "sunChannel = \<lparr>name = js ''Sun TV'', tvgId = JStr (js ''SunTV.in@HD'')\<rparr>"

text \<open>A world in which every request is answered with the English-labelled example
  page, and an empty cache.\<close>

definition onlineWorld :: world where
  "onlineWorld =
     \<lparr>net_of = (\<lambda>url attempt. Data exampleEnglishPage), franc_of = noClassifier, now_of = 0\<rparr>"

definition emptyCache :: LanguageCache where
  "emptyCache = \<lparr>cache = Map.empty, pendingWrites = 0, dirty = False, cacheFile = Map.empty\<rparr>"

text \<open>A page whose \<open>html\<close> element has \<open>lang="constructor"\<close>.\<close>

definition prototypePage :: html where
  "prototypePage =
     \<lparr>titleText = js ''Live'', metaDescription = None, metaOgTitle = None,
      metaOgDescription = None, metaOgSiteName = None, htmlLangAttr = Some (js ''constructor''),
      metaContentLanguage = None, metaOgLocale = None, metaLanguage = None,
      scriptSrcs = [], linkHrefs = [], convertedText = js ''Live''\<rparr>"

text \<open>
  The meaning of a pattern that has no assertion (\<open>plain\<close>): the set \<open>lang r\<close> of the
  strings it matches. A matcher state is the code unit before the position (\<open>None\<close> at
  the start) and the rest of the input; \<open>reach r st\<close> are the states after a match of
  \<open>r\<close> that starts in \<open>st\<close>.
\<close>

definition prevAfter :: "nat option \<Rightarrow> jsstring \<Rightarrow> nat option" where
  "prevAfter p u = (if u = [] then p else Some (last u))"

fun lang :: "re \<Rightarrow> jsstring set" where
  "lang (Cls P) = {[c] | c. P c}"
| "lang Eps = {[]}"
| "lang (Seq a b) = {u @ v | u v. u \<in> lang a \<and> v \<in> lang b}"
| "lang (Alt a b) = lang a \<union> lang b"
| "lang (Star a) = {concat ws | ws. set ws \<subseteq> lang a}"
| "lang (NotAhead a) = {}"
| "lang WordB = {}"
| "lang Bol = {}"
| "lang Eol = {}"

fun plain :: "re \<Rightarrow> bool" where
  "plain (Cls P) = True"
| "plain Eps = True"
| "plain (Seq a b) = (plain a \<and> plain b)"
| "plain (Alt a b) = (plain a \<and> plain b)"
| "plain (Star a) = plain a"
| "plain (NotAhead a) = False"
| "plain WordB = False"
| "plain Bol = False"
| "plain Eol = False"

definition reach :: "re \<Rightarrow> pos \<Rightarrow> pos set" where
  "reach r st = {(prevAfter (fst st) u, s') | u s'. u \<in> lang r \<and> snd st = u @ s'}"

text \<open>
  Host names, by their labels (the parts between the dots; 46 is the dot). The pattern of
  \<open>extractDomain\<close> accepts \<open>codeHostname\<close>: a first label of letters, digits and inner
  hyphens, followed by one or more labels of two or more letters each. \<open>specHostname\<close>
  is the grammar in the words of the specification: one or more labels, each of letters,
  digits and inner hyphens, the last one of two or more letters.
\<close>

definition firstLabel :: "jsstring \<Rightarrow> bool" where
  "firstLabel l \<longleftrightarrow> l \<noteq> [] \<and> isAlnum (hd l) \<and> isAlnum (last l) \<and> list_all isAlnumHyphen l"

definition alphaLabel :: "jsstring \<Rightarrow> bool" where
  "alphaLabel l \<longleftrightarrow> 2 \<le> length l \<and> list_all isAlpha l"

definition codeHostname :: "jsstring \<Rightarrow> bool" where
  "codeHostname d \<longleftrightarrow>
     (case splitOn 46 d of
        [] \<Rightarrow> False
      | l # ls \<Rightarrow> firstLabel l \<and> ls \<noteq> [] \<and> list_all alphaLabel ls)"

definition specHostname :: "jsstring \<Rightarrow> bool" where
  "specHostname d \<longleftrightarrow>
     (let labels = splitOn 46 d
      in list_all firstLabel labels \<and> 2 \<le> length (last labels) \<and> list_all isAlpha (last labels))"

text \<open>The candidate domain of a \<open>tvgId\<close>: the text before the first \<open>@\<close> (code unit 64),
  or all of it when there is none, trimmed.\<close>

definition candidate :: "jsstring \<Rightarrow> jsstring" where
  "candidate s = trim (takeWhile (\<lambda>c. c \<noteq> 64) s)"

text \<open>
  The words of \<open>explicitPatterns\<close>, language by language in the order of the table. A
  word occurs as a whole word in a string when it is neither preceded nor followed there
  by a word character (\<open>[A-Za-z0-9_]\<close>); a name mentions a language when one of the
  words of the language occurs as a whole word in the lower-cased name.
\<close>

definition explicitWords :: "(jsstring \<times> string list) list" where
  "explicitWords =
     [(js ''tamil'', [''tamil'', ''tamizh'']), (js ''telugu'', [''telugu'']),
      (js ''kannada'', [''kannada'']), (js ''malayalam'', [''malayalam'']),
      (js ''hindi'', [''hindi'']), (js ''bengali'', [''bengali'', ''bangla'']),
      (js ''marathi'', [''marathi'']), (js ''punjabi'', [''punjabi'', ''punjab'']),
      (js ''gujarati'', [''gujarati'']), (js ''english'', [''english'']),
      (js ''urdu'', [''urdu'']), (js ''bhojpuri'', [''bhojpuri''])]"

definition wholeWordIn :: "jsstring \<Rightarrow> jsstring \<Rightarrow> bool" where
  "wholeWordIn w s \<longleftrightarrow>
     (\<exists>pre post. s = pre @ w @ post
        \<and> (pre = [] \<or> \<not> isWordChar (last pre))
        \<and> (post = [] \<or> \<not> isWordChar (hd post)))"

definition mentions :: "jsstring \<Rightarrow> jsstring \<Rightarrow> bool" where
  "mentions l n \<longleftrightarrow>
     (case map_of explicitWords l of
        None \<Rightarrow> False
      | Some ws \<Rightarrow> \<exists>w\<in>set ws. wholeWordIn (js w) (toLowerCase n))"

text \<open>Whether a word character stands before, and at, a position.\<close>

definition wordBefore :: "nat option \<Rightarrow> bool" where
  "wordBefore p = (case p of None \<Rightarrow> False | Some c \<Rightarrow> isWordChar c)"

definition wordAhead :: "jsstring \<Rightarrow> bool" where
  "wordAhead t = (case t of [] \<Rightarrow> False | c # _ \<Rightarrow> isWordChar c)"

text \<open>A channel whose name mentions two languages.\<close>

definition hindiTamilChannel :: channel where
  "hindiTamilChannel = \<lparr>name = js ''Hindi Tamil News'', tvgId = JStr (js ''SunTV.in@HD'')\<rparr>"

(*DEFS-END*)

section \<open>Evaluation and basic facts\<close>

lemmas class_defs = isWhiteSpace_def isLineTerminator_def isUpper_def isLower_def isDigit_def
  isAlpha_def isAlnum_def isAlnumHyphen_def isWordChar_def

lemmas re_defs = re_test_def seqs_def Opt_def Plus_def AtLeast_def Chr_def Dot_def lit_def liti_def
  ciUnit_def wordRe_def optSpace_def gap_def hyphenOrUnderscore_def mentionTail_def

lemmas str_defs = js_def trim_def toLowerCase_def lowerUnit_def orEmpty_def orNull_def

lemmas eval_defs = class_defs re_defs str_defs
  detectLanguageFromDescription_def languageMentions_def detectLanguageFromResources_def
  resourcePatterns_def metadataSignals_def extractMetadata_def pushIf_def mkSignal_def
  detectLanguageFromMetadata_def aggregateLanguageSignals_def scoreSignal_def
  normalizeLanguageCode_def isoRe_def localeRe_def objGet_def langMap_def
  protoKeys_def inheritedToString_def

lemma Times_numeral [simp]: "Times (numeral k) r = Seq r (Times (pred_numeral k) r)"
  by (simp add: numeral_eq_Suc)

lemma js_eq_iff [simp]: "js a = js b \<longleftrightarrow> a = b"
  by (simp add: js_def inj_map_eq_map [OF inj_of_char])

lemma js_Nil_iff [simp]: "js a = [] \<longleftrightarrow> a = []" "[] = js a \<longleftrightarrow> a = []"
  by (auto simp: js_def)

lemma searchFrom_Bol_Some: "searchFrom (Seq Bol r) (Some c) s = False"
  by (induction s arbitrary: c) simp_all

lemma re_test_Bol: "re_test (Seq Bol r) s \<longleftrightarrow> ends r (None, s) \<noteq> []"
  by (cases s) (simp_all add: re_test_def searchFrom_Bol_Some)

lemma msignals_meta: "msignals (detectLanguageFromMetadata h) = metadataSignals h"
  by (simp add: detectLanguageFromMetadata_def Let_def)

lemma mlanguage_meta:
  "mlanguage (detectLanguageFromMetadata h) = aggregateLanguageSignals (metadataSignals h)"
  by (simp add: detectLanguageFromMetadata_def Let_def)

lemma collapseWs_id: "\<forall>c\<in>set t. \<not> isWhiteSpace c \<Longrightarrow> collapseWs t = t"
  by (induction t) simp_all

lemma trim_id: "\<forall>c\<in>set t. \<not> isWhiteSpace c \<Longrightarrow> trim t = t"
proof -
  assume a: "\<forall>c\<in>set t. \<not> isWhiteSpace c"
  have d: "dropWhile isWhiteSpace xs = xs" if "\<forall>c\<in>set xs. \<not> isWhiteSpace c" for xs
    using that by (cases xs) simp_all
  show ?thesis
    using a by (simp add: trim_def d)
qed

lemma cleanText_id: "\<forall>c\<in>set t. \<not> isWhiteSpace c \<Longrightarrow> cleanText t = t"
  by (simp add: cleanText_def collapseWs_id trim_id)

lemma firstMatch_key: "firstMatch tbl s = Some k \<Longrightarrow> k \<in> fst ` set tbl"
  by (induction tbl) (auto split: if_splits)

lemma fullLanguageNames_eq:
  "set fullLanguageNames =
     js ` {''tamil'', ''telugu'', ''hindi'', ''kannada'', ''malayalam'', ''english'', ''bengali'',
           ''marathi'', ''punjabi'', ''gujarati'', ''urdu'', ''bhojpuri'', ''assamese'', ''odia'',
           ''unknown''}"
  by (simp add: fullLanguageNames_def LANGUAGE_CODES_def)

lemma name_not_code: "l \<in> set fullLanguageNames \<Longrightarrow> \<not> isTwoLetterCode l \<and> l \<noteq> []"
  unfolding fullLanguageNames_eq by (auto simp: isTwoLetterCode_def js_def)

lemma description_names:
  "detectLanguageFromDescription t = Some l \<Longrightarrow> l \<in> set fullLanguageNames"
  unfolding fullLanguageNames_eq detectLanguageFromDescription_def
  apply (simp split: if_splits)
  apply (drule firstMatch_key)
  apply (auto simp: languageMentions_def)
  done

lemma scriptLanguage_names: "scriptLanguage sc = Some l \<Longrightarrow> l \<in> set fullLanguageNames"
  unfolding fullLanguageNames_eq scriptLanguage_def
  by (auto simp: scriptMap_def split: option.splits if_splits)

lemma francLanguage_names: "francLanguage fr t = Some l \<Longrightarrow> l \<in> set fullLanguageNames"
  unfolding fullLanguageNames_eq francLanguage_def
  by (auto simp: FRANC_TO_LANGUAGE_NAME_def split: option.splits if_splits)

lemma if_cascade:
  "\<lbrakk>P r0; P r1; P r2; P r3; P r4; P r5\<rbrakk>
   \<Longrightarrow> P (if a then r0 else if b then r1 else if c then r2 else if d then r3
          else if e then r4 else r5)"
  by simp

lemma analyze_names:
  "language (analyzeTextLanguage fr t) = Some l \<longrightarrow> l \<in> set fullLanguageNames"
  unfolding analyzeTextLanguage_def Let_def
  by (rule if_cascade [where P = "\<lambda>r. language r = Some l \<longrightarrow> l \<in> set fullLanguageNames"])
     (auto dest: scriptLanguage_names francLanguage_names simp: fullLanguageNames_eq)

lemma body_names:
  "language (detectLanguageFromBodyText fr h) = Some l \<Longrightarrow> l \<in> set fullLanguageNames"
  using analyze_names [of fr "convertedText h" l]
  by (auto simp: detectLanguageFromBodyText_def Let_def dest: description_names
      split: option.splits)

lemma explicit_names:
  "detectExplicitLanguageInName n = Some l \<Longrightarrow> l \<in> set fullLanguageNames"
  unfolding fullLanguageNames_eq detectExplicitLanguageInName_def
  apply (drule firstMatch_key)
  apply (auto simp: explicitPatterns_def)
  done

lemma pattern_keys:
  "firstMatch LANGUAGE_PATTERNS s = Some l \<Longrightarrow> l \<in> set fullLanguageNames"
  unfolding fullLanguageNames_eq
  apply (drule firstMatch_key)
  apply (auto simp: LANGUAGE_PATTERNS_def)
  done

lemma pattern_names: "detectLanguageByPattern n \<in> set fullLanguageNames"
  apply (simp add: detectLanguageByPattern_def Let_def split: option.splits)
  apply (auto dest: pattern_keys)
  apply (simp_all add: fullLanguageNames_eq)
  done

lemma exampleEnglishPage_meta:
  "mlanguage (detectLanguageFromMetadata exampleEnglishPage) = Some (js ''en'')"
  by (simp add: exampleEnglishPage_def eval_defs)

lemma exampleEnglishPage_body:
  "detectLanguageFromBodyText noClassifier exampleEnglishPage =
     \<lparr>language = Some (js ''tamil''), confidence = 85 / 100, dmethod = js ''body-language-mention''\<rparr>"
  by (simp add: exampleEnglishPage_def detectLanguageFromBodyText_def eval_defs)


lemma extractDomain_SunTV [simp]:
  "extractDomain (JStr (js ''SunTV.in@HD'')) = Some (js ''SunTV.in'')"
  by (simp add: extractDomain_def domainRe_def class_defs re_defs str_defs)

lemma explicit_tamilNews [simp]:
  "detectExplicitLanguageInName (js ''XYZ Tamil News'') = Some (js ''tamil'')"
  by (simp add: detectExplicitLanguageInName_def explicitPatterns_def class_defs re_defs str_defs)

lemma explicit_sun [simp]: "detectExplicitLanguageInName (js ''Sun TV'') = None"
  by (simp add: detectExplicitLanguageInName_def explicitPatterns_def class_defs re_defs str_defs)

lemma pattern_sun [simp]: "detectLanguageByPattern (js ''Sun TV'') = js ''tamil''"
  by (simp add: detectLanguageByPattern_def LANGUAGE_PATTERNS_def class_defs re_defs str_defs)


(*FACTS-END*)

section \<open>Conflict override in the full-HTML resolution\<close>

text \<open>
  Claim C1. Whenever the language aggregated from the metadata of a document is \<open>en\<close> and
  the analysis of its body text yields a language other than \<open>en\<close> with a confidence of
  at least 0.5, \<open>detectLanguageFromHTML\<close> in its default mode returns the language of the
  body text, whatever the signals are. The same holds for the resolution step taken by
  itself: with metadata language \<open>en\<close> and the body result
  \<open>{language: "ta", confidence: 0.6}\<close> the result is \<open>ta\<close>, for every list of metadata
  signals and every method tag.
\<close>

theorem conflict_override:
  "(mlanguage (detectLanguageFromMetadata h) = Some (js ''en'')
      \<and> language (detectLanguageFromBodyText fr h) = Some l \<and> l \<noteq> js ''en''
      \<and> confidence (detectLanguageFromBodyText fr h) \<ge> 5 / 10
     \<longrightarrow> detectLanguageFromHTML fr h False = Some l)
   \<and> (mlanguage m = Some (js ''en'')
        \<longrightarrow> resolveBody m \<lparr>language = Some (js ''ta''), confidence = 6 / 10, dmethod = mth\<rparr>
            = Some (js ''ta''))"
proof (intro conjI impI)
  assume a: "mlanguage (detectLanguageFromMetadata h) = Some (js ''en'')
      \<and> language (detectLanguageFromBodyText fr h) = Some l \<and> l \<noteq> js ''en''
      \<and> confidence (detectLanguageFromBodyText fr h) \<ge> 5 / 10"
  then have "l \<noteq> []"
    using body_names name_not_code by blast
  with a show "detectLanguageFromHTML fr h False = Some l"
    by (simp add: detectLanguageFromHTML_def resolveBody_def)
next
  assume "mlanguage m = Some (js ''en'')"
  then show "resolveBody m \<lparr>language = Some (js ''ta''), confidence = 6 / 10, dmethod = mth\<rparr>
            = Some (js ''ta'')"
    by (simp add: resolveBody_def js_def)
qed

theorem conflict_override_witness:
  "detectLanguageFromHTML noClassifier exampleEnglishPage False = Some (js ''tamil'')
   \<and> resolveBody (detectLanguageFromMetadata exampleEnglishPage)
        \<lparr>language = Some (js ''ta''), confidence = 6 / 10, dmethod = js ''script-detection''\<rparr>
      = Some (js ''ta'')"
  using conflict_override [of exampleEnglishPage noClassifier "js ''tamil''"
      "detectLanguageFromMetadata exampleEnglishPage" "js ''script-detection''"]
  by (simp add: exampleEnglishPage_meta exampleEnglishPage_body js_def)


section \<open>Confidence of the script detection\<close>

lemma analyze_script_confidence:
  "dmethod (analyzeTextLanguage fr t) = js ''script-detection''
   \<longrightarrow> confidence (analyzeTextLanguage fr t) = min (95 / 100) (scriptRatio t * 10)"
  unfolding analyzeTextLanguage_def Let_def
  by (rule if_cascade [where P = "\<lambda>r. dmethod r = js ''script-detection''
        \<longrightarrow> confidence r = min (95 / 100) (scriptRatio t * 10)"]) simp_all

lemma analyze_confidence_le: "confidence (analyzeTextLanguage fr t) \<le> 95 / 100"
  unfolding analyzeTextLanguage_def Let_def
  by (rule if_cascade [where P = "\<lambda>r. confidence r \<le> 95 / 100"]) simp_all

lemma mixedText_clean: "cleanText (mixedText n m) = mixedText n m"
  by (rule cleanText_id) (auto simp: mixedText_def isWhiteSpace_def)

lemma mixedText_sample: "n + m \<le> 5000 \<Longrightarrow> sample (mixedText n m) = mixedText n m"
  by (simp add: sample_def mixedText_clean) (simp add: mixedText_def)

lemma mixedText_max:
  "n + m \<le> 5000 \<Longrightarrow> maxScript (sample (mixedText n m)) = (if 0 < n then Some (js ''tamil'') else None, n)"
  by (simp add: mixedText_sample)
     (simp add: mixedText_def maxScript_def scripts_def countRange_def class_defs)

lemma mixedText_ratio:
  "n + m \<le> 5000 \<Longrightarrow> scriptRatio (mixedText n m) = of_nat n / of_nat (n + m)"
proof -
  assume a: "n + m \<le> 5000"
  then have "length (sample (mixedText n m)) = n + m"
    by (simp add: mixedText_sample) (simp add: mixedText_def)
  then show ?thesis
    using a by (simp add: scriptRatio_def mixedText_max)
qed

lemma mixedText_analyze:
  "n + m \<le> 5000 \<Longrightarrow> 50 < n \<Longrightarrow> 20 * n > n + m \<Longrightarrow>
   analyzeTextLanguage fr (mixedText n m) =
     \<lparr>language = Some (js ''tamil''), confidence = min (95 / 100) (of_nat n / of_nat (n + m) * 10),
      dmethod = js ''script-detection''\<rparr>"
  apply (simp add: analyzeTextLanguage_def Let_def mixedText_clean mixedText_max mixedText_ratio
      scriptLanguage_def scriptMap_def)
  apply (simp add: mixedText_def field_simps)
  done


lemma mixedText_fallback:
  "analyzeTextLanguage fr (mixedText 50 10) =
     \<lparr>language = Some (js ''tamil''), confidence = 4 / 10, dmethod = js ''script-fallback''\<rparr>"
  apply (simp add: analyzeTextLanguage_def Let_def mixedText_clean mixedText_max mixedText_ratio
      scriptLanguage_def scriptMap_def)
  apply (simp add: mixedText_def)
  done

text \<open>
  Claim C8, as stated for any two texts, fails. A text of 50 Tamil letters and 10 digits
  has the share 5/6, but its winning count is not above 50 and it is shorter than 100
  code units, so it is decided by the fallback to script detection with the lower
  threshold, with the fixed confidence 0.4. A text of 51 Tamil letters and 549 digits has
  the lower share 0.085 and the higher confidence 0.85.
\<close>

theorem script_confidence_counterexample:
  "scriptRatio (mixedText 51 549) < scriptRatio (mixedText 50 10)
   \<and> confidence (analyzeTextLanguage noClassifier (mixedText 50 10)) = 4 / 10
   \<and> confidence (analyzeTextLanguage noClassifier (mixedText 51 549)) = 85 / 100
   \<and> confidence (analyzeTextLanguage noClassifier (mixedText 50 10))
       < confidence (analyzeTextLanguage noClassifier (mixedText 51 549))"
  by (simp add: mixedText_fallback mixedText_analyze mixedText_ratio)

text \<open>
  Claim C8, amended. Among the results that \<open>analyzeTextLanguage\<close> reaches in its first
  step (method \<open>script-detection\<close>) the confidence is \<open>min(0.95, share * 10)\<close>, where the
  share is the winning script's part of the sample: of two texts decided in that step, the
  one with the higher share never has the lower confidence. No result of
  \<open>analyzeTextLanguage\<close>, of whatever step, has a confidence above 0.95.
\<close>

theorem script_confidence_monotone:
  "(dmethod (analyzeTextLanguage fr t1) = js ''script-detection''
      \<and> dmethod (analyzeTextLanguage fr t2) = js ''script-detection''
      \<and> scriptRatio t1 \<le> scriptRatio t2
     \<longrightarrow> confidence (analyzeTextLanguage fr t1) \<le> confidence (analyzeTextLanguage fr t2))
   \<and> (dmethod (analyzeTextLanguage fr t1) = js ''script-detection''
        \<longrightarrow> confidence (analyzeTextLanguage fr t1) = min (95 / 100) (scriptRatio t1 * 10))
   \<and> confidence (analyzeTextLanguage fr t1) \<le> 95 / 100"
  using analyze_script_confidence [of fr t1] analyze_script_confidence [of fr t2]
    analyze_confidence_le [of fr t1]
  by (auto simp: min_def)

theorem script_confidence_monotone_witness:
  "confidence (analyzeTextLanguage noClassifier (mixedText 51 549)) = 85 / 100
   \<and> confidence (analyzeTextLanguage noClassifier (mixedText 60 540)) = 95 / 100
   \<and> scriptRatio (mixedText 51 549) \<le> scriptRatio (mixedText 60 540)
   \<and> confidence (analyzeTextLanguage noClassifier (mixedText 51 549))
       \<le> confidence (analyzeTextLanguage noClassifier (mixedText 60 540))"
  using script_confidence_monotone [of noClassifier "mixedText 51 549" "mixedText 60 540"]
  by (simp add: mixedText_analyze mixedText_ratio)


section \<open>The weight of the body-text signal\<close>

lemma exampleHindiPage_signals:
  "metadataSignals exampleHindiPage =
     [mkSignal ''html-lang'' (js ''hi'') 10, mkSignal ''meta-content-language'' (js ''hi'') 8,
      mkSignal ''og-locale'' (js ''hi_IN'') 7]"
  by (simp add: exampleHindiPage_def metadataSignals_def extractMetadata_def pushIf_def
      detectLanguageFromDescription_def languageMentions_def detectLanguageFromResources_def
      resourcePatterns_def class_defs re_defs str_defs)

lemma exampleHindiPage_hint:
  "detectLanguageFromDescription (convertedText exampleHindiPage) = None"
  by (simp add: exampleHindiPage_def detectLanguageFromDescription_def languageMentions_def
      class_defs re_defs str_defs)

lemma exampleHindiPage_clean:
  "cleanText (convertedText exampleHindiPage) = convertedText exampleHindiPage"
  by (simp add: exampleHindiPage_def cleanText_def class_defs str_defs)

lemma exampleHindiPage_len: "length (convertedText exampleHindiPage) = 117"
  by (simp add: exampleHindiPage_def js_def)

lemma exampleHindiPage_sample:
  "sample (convertedText exampleHindiPage) = convertedText exampleHindiPage"
  by (simp add: sample_def exampleHindiPage_clean exampleHindiPage_len)

lemma exampleHindiPage_max:
  "maxScript (sample (convertedText exampleHindiPage)) = (Some (js ''latin''), 95)"
  unfolding exampleHindiPage_sample
  by (simp add: exampleHindiPage_def maxScript_def scripts_def countRange_def class_defs js_def)

lemma exampleHindiPage_ratio: "scriptRatio (convertedText exampleHindiPage) = 95 / 117"
  by (simp add: scriptRatio_def exampleHindiPage_max)
     (simp add: exampleHindiPage_sample exampleHindiPage_len)

lemma exampleHindiPage_franc:
  "francLanguage englishClassifier t = Some (js ''english'')"
  by (simp add: francLanguage_def englishClassifier_def FRANC_TO_LANGUAGE_NAME_def)

lemma exampleHindiPage_analyze:
  "analyzeTextLanguage englishClassifier (convertedText exampleHindiPage) =
     \<lparr>language = Some (js ''english''), confidence = 6 / 10, dmethod = js ''franc-english''\<rparr>"
  unfolding analyzeTextLanguage_def Let_def exampleHindiPage_clean exampleHindiPage_max
    exampleHindiPage_ratio exampleHindiPage_franc exampleHindiPage_len
  by (simp add: scriptLanguage_def scriptMap_def)


lemma exampleHindiPage_body:
  "detectLanguageFromBodyText englishClassifier exampleHindiPage =
     \<lparr>language = Some (js ''english''), confidence = 6 / 10, dmethod = js ''franc-english''\<rparr>"
  by (simp add: detectLanguageFromBodyText_def exampleHindiPage_hint exampleHindiPage_analyze)

lemma exampleHindiPage_meta:
  "mlanguage (detectLanguageFromMetadata exampleHindiPage) = Some (js ''hi'')"
  unfolding mlanguage_meta exampleHindiPage_signals
  by (simp add: eval_defs)

lemma exampleHindiPage_combined:
  "combinedSignals (detectLanguageFromMetadata exampleHindiPage)
      (detectLanguageFromBodyText englishClassifier exampleHindiPage)
   = [mkSignal ''html-lang'' (js ''hi'') 5, mkSignal ''meta-content-language'' (js ''hi'') 4,
      mkSignal ''og-locale'' (js ''hi_IN'') (7 / 2),
      \<lparr>source = js ''body-text'', sigvalue = js ''english'', weight = 15,
         sconfidence = Some (6 / 10), smethod = Some (js ''franc-english'')\<rparr>]"
  by (simp add: combinedSignals_def exampleHindiPage_body msignals_meta
      exampleHindiPage_signals halved_def mkSignal_def bodySignal_def bodyWeight_def)

lemma exampleHindiPage_aggregate:
  "aggregateLanguageSignals
     [mkSignal ''html-lang'' (js ''hi'') 5, mkSignal ''meta-content-language'' (js ''hi'') 4,
      mkSignal ''og-locale'' (js ''hi_IN'') (7 / 2),
      \<lparr>source = js ''body-text'', sigvalue = js ''english'', weight = 15,
         sconfidence = Some (6 / 10), smethod = Some (js ''franc-english'')\<rparr>]
   = Some (js ''en'')"
  by (simp add: eval_defs)

lemma body_weight_never_8:
  "language (detectLanguageFromBodyText fr h) = Some l \<Longrightarrow> bodyWeight l = 15"
  using body_names [of fr h l] unfolding fullLanguageNames_eq
  by (auto simp: bodyWeight_def)


text \<open>
  Claim C4. The signal pushed for a body result has the weight 8 when the body language
  is English and 15 otherwise. The source compares the body language with the code
  \<open>en\<close>, while both body analysers return full names: for an English body text the
  language is \<open>english\<close> and the weight is 15 (no body result of the analysers gets the
  weight 8). On the example page the halved metadata signals give Hindi 12.5 points, and
  the English body signal, with 15 points where 8 were meant, wins the aggregation.
\<close>

theorem english_body_weight:
  "detectLanguageFromBodyText englishClassifier exampleHindiPage
     = \<lparr>language = Some (js ''english''), confidence = 6 / 10, dmethod = js ''franc-english''\<rparr>
   \<and> bodySignal (detectLanguageFromBodyText englishClassifier exampleHindiPage)
     = [\<lparr>source = js ''body-text'', sigvalue = js ''english'', weight = 15,
         sconfidence = Some (6 / 10), smethod = Some (js ''franc-english'')\<rparr>]
   \<and> detectLanguageFromHTML englishClassifier exampleHindiPage False = Some (js ''en'')"
proof (intro conjI)
  show "detectLanguageFromBodyText englishClassifier exampleHindiPage
     = \<lparr>language = Some (js ''english''), confidence = 6 / 10, dmethod = js ''franc-english''\<rparr>"
    by (rule exampleHindiPage_body)
  show "bodySignal (detectLanguageFromBodyText englishClassifier exampleHindiPage)
     = [\<lparr>source = js ''body-text'', sigvalue = js ''english'', weight = 15,
         sconfidence = Some (6 / 10), smethod = Some (js ''franc-english'')\<rparr>]"
    by (simp add: exampleHindiPage_body bodySignal_def bodyWeight_def)
  have "resolveBody (detectLanguageFromMetadata exampleHindiPage)
          (detectLanguageFromBodyText englishClassifier exampleHindiPage)
        = aggregateLanguageSignals (combinedSignals (detectLanguageFromMetadata exampleHindiPage)
            (detectLanguageFromBodyText englishClassifier exampleHindiPage))"
    by (simp add: resolveBody_def exampleHindiPage_body exampleHindiPage_meta)
  also have "\<dots> = Some (js ''en'')"
    unfolding exampleHindiPage_combined by (rule exampleHindiPage_aggregate)
  finally show "detectLanguageFromHTML englishClassifier exampleHindiPage False = Some (js ''en'')"
    by (simp add: detectLanguageFromHTML_def)
qed


section \<open>Normalisation does not check the language\<close>

lemma lower_fix: "isLower a \<Longrightarrow> lowerUnit a = [a]"
  by (auto simp: lowerUnit_def isLower_def isUpper_def)

lemma lower_not_space: "isLower a \<Longrightarrow> \<not> isWhiteSpace a"
  by (auto simp: isLower_def isWhiteSpace_def)

lemma normalize_iso:
  assumes "isLower a" "isLower b"
  shows "normalizeLanguageCode [a, b] = Own [a, b]"
proof -
  have "trim (toLowerCase [a, b]) = [a, b]"
    using assms by (simp add: toLowerCase_def lower_fix trim_def lower_not_space)
  moreover have "re_test isoRe [a, b]"
    using assms by (simp add: isoRe_def seqs_def re_test_Bol)
  ultimately show ?thesis
    by (simp add: normalizeLanguageCode_def)
qed

lemma normalize_locale:
  assumes "trim (toLowerCase v) = a # b # c # rest" "isLower a" "isLower b" "c = 45 \<or> c = 95"
  shows "normalizeLanguageCode v = Own [a, b]"
proof -
  have "v \<noteq> []"
    using assms(1) by (auto simp: toLowerCase_def trim_def)
  moreover have "\<not> re_test isoRe (a # b # c # rest)"
    using assms by (simp add: isoRe_def seqs_def re_test_Bol)
  moreover have "re_test localeRe (a # b # c # rest)"
    using assms by (auto simp: localeRe_def seqs_def re_test_Bol)
  ultimately show ?thesis
    using assms(1) by (simp add: normalizeLanguageCode_def)
qed

lemma exampleFrenchPage_signals:
  "metadataSignals exampleFrenchPage = [mkSignal ''html-lang'' (js ''fr'') 10]"
  by (simp add: exampleFrenchPage_def metadataSignals_def extractMetadata_def pushIf_def
      detectLanguageFromDescription_def languageMentions_def detectLanguageFromResources_def
      resourcePatterns_def class_defs re_defs str_defs)

lemma exampleFrenchPage_body:
  "detectLanguageFromBodyText noClassifier exampleFrenchPage =
     \<lparr>language = None, confidence = 0, dmethod = js ''insufficient-text''\<rparr>"
  by (simp add: exampleFrenchPage_def detectLanguageFromBodyText_def analyzeTextLanguage_def
      cleanText_def detectLanguageFromDescription_def languageMentions_def class_defs re_defs str_defs)

lemma aggregate_fr:
  "aggregateLanguageSignals [mkSignal ''html-lang'' (js ''fr'') w] = Some (js ''fr'')"
  by (simp add: eval_defs)

text \<open>
  Claim C10. \<open>normalizeLanguageCode\<close> returns every string of two small ASCII letters
  unchanged, and for every value whose lower-cased, trimmed form starts with two small
  letters followed by \<open>-\<close> or \<open>_\<close> it returns those two letters; membership in the
  supported languages is not checked. So for a page whose \<open>html\<close> element has
  \<open>lang="fr"\<close> the aggregation and \<open>detectLanguageFromHTML\<close> return \<open>fr\<close>, which is no
  value of \<open>LANGUAGE_CODES\<close>.
\<close>

theorem normalize_unchecked:
  "(isLower a \<and> isLower b \<longrightarrow> normalizeLanguageCode [a, b] = Own [a, b])
   \<and> (trim (toLowerCase v) = x # y # c # rest \<and> isLower x \<and> isLower y \<and> (c = 45 \<or> c = 95)
        \<longrightarrow> normalizeLanguageCode v = Own [x, y])
   \<and> js ''fr'' \<notin> snd ` set LANGUAGE_CODES
   \<and> aggregateLanguageSignals (metadataSignals exampleFrenchPage) = Some (js ''fr'')
   \<and> detectLanguageFromHTML noClassifier exampleFrenchPage False = Some (js ''fr'')"
proof (intro conjI impI)
  show "js ''fr'' \<notin> snd ` set LANGUAGE_CODES"
    by (simp add: LANGUAGE_CODES_def)
  show "aggregateLanguageSignals (metadataSignals exampleFrenchPage) = Some (js ''fr'')"
    by (simp add: exampleFrenchPage_signals aggregate_fr)
  show "detectLanguageFromHTML noClassifier exampleFrenchPage False = Some (js ''fr'')"
    by (simp add: detectLanguageFromHTML_def resolveBody_def exampleFrenchPage_body
        combinedSignals_def msignals_meta exampleFrenchPage_signals halved_def bodySignal_def
        mkSignal_def aggregate_fr [unfolded mkSignal_def])
qed (auto intro: normalize_iso normalize_locale)

theorem normalize_unchecked_witness:
  "normalizeLanguageCode (js ''fr'') = Own (js ''fr'')
   \<and> normalizeLanguageCode (js '' Ta_IN '') = Own (js ''ta'')"
  using normalize_unchecked [of 102 114 "js '' Ta_IN ''" 116 97 95 "js ''in''"]
  by (simp add: str_defs class_defs)


section \<open>Cache hits\<close>

text \<open>
  Claim C3, as stated, fails: a channel whose name mentions a language is resolved from
  its name before the cache is read, also when its domain has an entry. Here the entry
  says \<open>hindi\<close> (from \<open>web\<close>) and the result is \<open>tamil\<close> with the source
  \<open>name-explicit\<close>, not \<open>cached-web\<close>.
\<close>

theorem cached_entry_counterexample:
  "extractDomain (tvgId tamilNewsChannel) = Some (js ''SunTV.in'')
   \<and> cache exampleCache (js ''SunTV.in'')
       = Some \<lparr>elanguage = js ''hindi'', esource = js ''web'', timestamp = 0\<rparr>
   \<and> rlanguage (detectLanguage offlineWorld tamilNewsChannel exampleCache) = js ''tamil''
   \<and> rsource (detectLanguage offlineWorld tamilNewsChannel exampleCache) = js ''name-explicit''
   \<and> rsource (detectLanguage offlineWorld tamilNewsChannel exampleCache) \<noteq> js ''cached-'' @ js ''web''"
  by (simp add: tamilNewsChannel_def exampleCache_def detectLanguage_def Let_def) (simp add: js_def)

text \<open>
  Claim C3, amended. For every channel whose extracted domain has a cache entry,
  \<open>detectLanguage\<close> sends no request; and when the name of the channel has no explicit
  language mention, it returns the stored language with the source \<open>cached-\<close> followed by
  the stored source, and leaves the cache as it was.
\<close>

theorem cache_hit:
  "extractDomain (tvgId ch) = Some d \<and> cache c d = Some e
   \<longrightarrow> requests (detectLanguage w ch c) = []
       \<and> (detectExplicitLanguageInName (name ch) = None
            \<longrightarrow> rlanguage (detectLanguage w ch c) = elanguage e
                \<and> rsource (detectLanguage w ch c) = js ''cached-'' @ esource e
                \<and> cacheAfter (detectLanguage w ch c) = c)"
  by (auto simp: detectLanguage_def Let_def cache_has_def cache_get_def split: option.splits)

theorem cache_hit_witness:
  "requests (detectLanguage offlineWorld sunChannel exampleCache) = []
   \<and> rlanguage (detectLanguage offlineWorld sunChannel exampleCache) = js ''hindi''
   \<and> rsource (detectLanguage offlineWorld sunChannel exampleCache) = js ''cached-web''
   \<and> cacheAfter (detectLanguage offlineWorld sunChannel exampleCache) = exampleCache"
  using cache_hit [of sunChannel "js ''SunTV.in''" exampleCache
      "\<lparr>elanguage = js ''hindi'', esource = js ''web'', timestamp = 0\<rparr>" offlineWorld]
  by (simp add: sunChannel_def) (simp add: exampleCache_def js_def)


section \<open>Full names and two-letter codes\<close>

lemma cache_set_entry:
  "cache (cache_set t c d l src) d = Some \<lparr>elanguage = l, esource = src, timestamp = t\<rparr>"
  by (simp add: cache_set_def cache_save_def Let_def)

lemma cached_source_ne:
  "js ''cached-'' @ x \<noteq> js ''name-explicit''" "js ''cached-'' @ x \<noteq> js ''pattern''"
  by (simp_all add: js_def)

lemma detectLanguage_sources:
  "rsource (detectLanguage w ch c) = js ''name-explicit''
     \<Longrightarrow> detectExplicitLanguageInName (name ch) = Some (rlanguage (detectLanguage w ch c))
         \<and> cacheAfter (detectLanguage w ch c)
             = (case extractDomain (tvgId ch) of
                  Some d \<Rightarrow> cache_set (now_of w) c d (rlanguage (detectLanguage w ch c))
                              (js ''name-explicit'')
                | None \<Rightarrow> c)"
  "rsource (detectLanguage w ch c) = js ''pattern''
     \<Longrightarrow> rlanguage (detectLanguage w ch c) = detectLanguageByPattern (name ch)
         \<and> cacheAfter (detectLanguage w ch c)
             = (case extractDomain (tvgId ch) of
                  Some d \<Rightarrow> cache_set (now_of w) c d (rlanguage (detectLanguage w ch c))
                              (js ''pattern'')
                | None \<Rightarrow> c)"
  by (auto simp: detectLanguage_def Let_def patternFallback_def cached_source_ne
      split: option.splits if_splits prod.splits)

lemma resolve_shortcut:
  assumes "truthy (language b)"
    and "(mlanguage m = Some (js ''en'') \<and> language b \<noteq> Some (js ''en'') \<and> confidence b \<ge> 5 / 10)
         \<or> confidence b \<ge> 7 / 10"
  shows "resolveBody m b = language b"
  using assms by (auto simp: resolveBody_def)


lemma cached_source_ne_web: "js ''cached-'' @ x \<noteq> js ''web''"
  by (simp add: js_def)

lemma detectLanguage_web:
  "rsource (detectLanguage w ch c) = js ''web''
   \<Longrightarrow> \<exists>d h. extractDomain (tvgId ch) = Some d
           \<and> fst (fetchWebsite (net_of w) d maxRetries) = Some h
           \<and> detectLanguageFromHTML (franc_of w) h False = Some (rlanguage (detectLanguage w ch c))
           \<and> cacheAfter (detectLanguage w ch c)
               = cache_set (now_of w) c d (rlanguage (detectLanguage w ch c)) (js ''web'')"
  by (auto simp: detectLanguage_def Let_def patternFallback_def cached_source_ne_web
      split: option.splits if_splits prod.splits)

lemma html_shortcut_names:
  assumes "truthy (language (detectLanguageFromBodyText fr h))"
    and "(mlanguage (detectLanguageFromMetadata h) = Some (js ''en'')
           \<and> language (detectLanguageFromBodyText fr h) \<noteq> Some (js ''en'')
           \<and> confidence (detectLanguageFromBodyText fr h) \<ge> 5 / 10)
         \<or> confidence (detectLanguageFromBodyText fr h) \<ge> 7 / 10"
  shows "\<exists>l. detectLanguageFromHTML fr h False = Some l \<and> l \<in> set fullLanguageNames
             \<and> \<not> isTwoLetterCode l"
proof -
  obtain l where l: "language (detectLanguageFromBodyText fr h) = Some l"
    using assms(1) by (cases "language (detectLanguageFromBodyText fr h)") auto
  have "detectLanguageFromHTML fr h False = language (detectLanguageFromBodyText fr h)"
    using assms by (simp add: detectLanguageFromHTML_def resolve_shortcut)
  with l show ?thesis
    using body_names [OF l] name_not_code by auto
qed

lemma html_two_letter:
  assumes "detectLanguageFromHTML fr h mo = Some l" "isTwoLetterCode l"
  shows "Some l = aggregateLanguageSignals
                    (if mo then metadataSignals h
                     else combinedSignals (detectLanguageFromMetadata h)
                            (detectLanguageFromBodyText fr h))"
proof (cases mo)
  case True
  with assms show ?thesis
    by (simp add: detectLanguageFromHTML_def mlanguage_meta)
next
  case False
  have "language (detectLanguageFromBodyText fr h) \<noteq> Some l"
    using assms body_names name_not_code by blast
  with assms False show ?thesis
    by (auto simp: detectLanguageFromHTML_def Let_def resolveBody_def split: if_splits)
qed

text \<open>
  Claim C9. When \<open>detectLanguage\<close> resolves with the source \<open>name-explicit\<close> or
  \<open>pattern\<close>, the language it returns, and stores in the cache when there is a domain, is
  a full language name (a key of \<open>LANGUAGE_CODES\<close>, \<open>unknown\<close> included) and not a
  two-letter code. When \<open>detectLanguageFromHTML\<close> returns through the conflict override or
  the high-confidence short-circuit, its result is a full language name as well. When
  \<open>detectLanguage\<close> resolves with the source \<open>web\<close>, the language it returns is the result
  of \<open>detectLanguageFromHTML\<close> on the fetched page and is what the cache stores for the
  domain, so on the override and short-circuit paths the returned and cached value is a
  full name. A two-letter result of \<open>detectLanguageFromHTML\<close> is always the result of the
  aggregation of signals (of the metadata signals in metadata-only mode, of the combined
  signals otherwise).
\<close>

theorem full_names_outside_aggregation:
  "((rsource (detectLanguage w ch c) = js ''name-explicit''
       \<or> rsource (detectLanguage w ch c) = js ''pattern'')
     \<longrightarrow> rlanguage (detectLanguage w ch c) \<in> set fullLanguageNames
         \<and> \<not> isTwoLetterCode (rlanguage (detectLanguage w ch c))
         \<and> (\<forall>d. extractDomain (tvgId ch) = Some d
               \<longrightarrow> map_option elanguage (cache (cacheAfter (detectLanguage w ch c)) d)
                   = Some (rlanguage (detectLanguage w ch c))))
   \<and> (truthy (language (detectLanguageFromBodyText fr h))
        \<and> ((mlanguage (detectLanguageFromMetadata h) = Some (js ''en'')
               \<and> language (detectLanguageFromBodyText fr h) \<noteq> Some (js ''en'')
               \<and> confidence (detectLanguageFromBodyText fr h) \<ge> 5 / 10)
             \<or> confidence (detectLanguageFromBodyText fr h) \<ge> 7 / 10)
       \<longrightarrow> (\<exists>l. detectLanguageFromHTML fr h False = Some l \<and> l \<in> set fullLanguageNames
                 \<and> \<not> isTwoLetterCode l))
   \<and> (rsource (detectLanguage w2 ch2 c2) = js ''web''
       \<longrightarrow> (\<exists>d h2. extractDomain (tvgId ch2) = Some d
                  \<and> fst (fetchWebsite (net_of w2) d maxRetries) = Some h2
                  \<and> detectLanguageFromHTML (franc_of w2) h2 False
                      = Some (rlanguage (detectLanguage w2 ch2 c2))
                  \<and> cache (cacheAfter (detectLanguage w2 ch2 c2)) d
                      = Some \<lparr>elanguage = rlanguage (detectLanguage w2 ch2 c2),
                               esource = js ''web'', timestamp = now_of w2\<rparr>
                  \<and> (truthy (language (detectLanguageFromBodyText (franc_of w2) h2))
                       \<and> ((mlanguage (detectLanguageFromMetadata h2) = Some (js ''en'')
                              \<and> language (detectLanguageFromBodyText (franc_of w2) h2)
                                  \<noteq> Some (js ''en'')
                              \<and> confidence (detectLanguageFromBodyText (franc_of w2) h2) \<ge> 5 / 10)
                            \<or> confidence (detectLanguageFromBodyText (franc_of w2) h2) \<ge> 7 / 10)
                      \<longrightarrow> rlanguage (detectLanguage w2 ch2 c2) \<in> set fullLanguageNames
                          \<and> \<not> isTwoLetterCode (rlanguage (detectLanguage w2 ch2 c2)))))
   \<and> (detectLanguageFromHTML fr3 h3 mo = Some l' \<and> isTwoLetterCode l'
       \<longrightarrow> Some l' = aggregateLanguageSignals
                        (if mo then metadataSignals h3
                         else combinedSignals (detectLanguageFromMetadata h3)
                                (detectLanguageFromBodyText fr3 h3)))"
proof (intro conjI impI)
  assume s: "rsource (detectLanguage w ch c) = js ''name-explicit''
       \<or> rsource (detectLanguage w ch c) = js ''pattern''"
  then have n: "rlanguage (detectLanguage w ch c) \<in> set fullLanguageNames"
    using detectLanguage_sources [of w ch c] explicit_names pattern_names by metis
  then show "rlanguage (detectLanguage w ch c) \<in> set fullLanguageNames" .
  from n show "\<not> isTwoLetterCode (rlanguage (detectLanguage w ch c))"
    using name_not_code by blast
  from s show "\<forall>d. extractDomain (tvgId ch) = Some d
               \<longrightarrow> map_option elanguage (cache (cacheAfter (detectLanguage w ch c)) d)
                   = Some (rlanguage (detectLanguage w ch c))"
    using detectLanguage_sources [of w ch c] by (auto simp: cache_set_entry)
next
  assume "truthy (language (detectLanguageFromBodyText fr h))
        \<and> ((mlanguage (detectLanguageFromMetadata h) = Some (js ''en'')
               \<and> language (detectLanguageFromBodyText fr h) \<noteq> Some (js ''en'')
               \<and> confidence (detectLanguageFromBodyText fr h) \<ge> 5 / 10)
             \<or> confidence (detectLanguageFromBodyText fr h) \<ge> 7 / 10)"
  then show "\<exists>l. detectLanguageFromHTML fr h False = Some l \<and> l \<in> set fullLanguageNames
                 \<and> \<not> isTwoLetterCode l"
    using html_shortcut_names [of fr h] by blast
next
  assume "rsource (detectLanguage w2 ch2 c2) = js ''web''"
  then obtain d h2 where d: "extractDomain (tvgId ch2) = Some d"
    and f: "fst (fetchWebsite (net_of w2) d maxRetries) = Some h2"
    and r: "detectLanguageFromHTML (franc_of w2) h2 False = Some (rlanguage (detectLanguage w2 ch2 c2))"
    and ca: "cacheAfter (detectLanguage w2 ch2 c2)
               = cache_set (now_of w2) c2 d (rlanguage (detectLanguage w2 ch2 c2)) (js ''web'')"
    using detectLanguage_web [of w2 ch2 c2] by blast
  have "truthy (language (detectLanguageFromBodyText (franc_of w2) h2))
          \<and> ((mlanguage (detectLanguageFromMetadata h2) = Some (js ''en'')
                 \<and> language (detectLanguageFromBodyText (franc_of w2) h2) \<noteq> Some (js ''en'')
                 \<and> confidence (detectLanguageFromBodyText (franc_of w2) h2) \<ge> 5 / 10)
               \<or> confidence (detectLanguageFromBodyText (franc_of w2) h2) \<ge> 7 / 10)
        \<longrightarrow> rlanguage (detectLanguage w2 ch2 c2) \<in> set fullLanguageNames
            \<and> \<not> isTwoLetterCode (rlanguage (detectLanguage w2 ch2 c2))"
    using html_shortcut_names [of "franc_of w2" h2] r by auto
  with d f r ca show "\<exists>d h2. extractDomain (tvgId ch2) = Some d
                  \<and> fst (fetchWebsite (net_of w2) d maxRetries) = Some h2
                  \<and> detectLanguageFromHTML (franc_of w2) h2 False
                      = Some (rlanguage (detectLanguage w2 ch2 c2))
                  \<and> cache (cacheAfter (detectLanguage w2 ch2 c2)) d
                      = Some \<lparr>elanguage = rlanguage (detectLanguage w2 ch2 c2),
                               esource = js ''web'', timestamp = now_of w2\<rparr>
                  \<and> (truthy (language (detectLanguageFromBodyText (franc_of w2) h2))
                       \<and> ((mlanguage (detectLanguageFromMetadata h2) = Some (js ''en'')
                              \<and> language (detectLanguageFromBodyText (franc_of w2) h2)
                                  \<noteq> Some (js ''en'')
                              \<and> confidence (detectLanguageFromBodyText (franc_of w2) h2) \<ge> 5 / 10)
                            \<or> confidence (detectLanguageFromBodyText (franc_of w2) h2) \<ge> 7 / 10)
                      \<longrightarrow> rlanguage (detectLanguage w2 ch2 c2) \<in> set fullLanguageNames
                          \<and> \<not> isTwoLetterCode (rlanguage (detectLanguage w2 ch2 c2)))"
    by (intro exI [of _ d] exI [of _ h2]) (simp add: cache_set_entry)
next
  assume "detectLanguageFromHTML fr3 h3 mo = Some l' \<and> isTwoLetterCode l'"
  then show "Some l' = aggregateLanguageSignals
                        (if mo then metadataSignals h3
                         else combinedSignals (detectLanguageFromMetadata h3)
                                (detectLanguageFromBodyText fr3 h3))"
    using html_two_letter [of fr3 h3 mo l'] by blast
qed


lemma tamilNews_outcome:
  "rsource (detectLanguage offlineWorld tamilNewsChannel exampleCache) = js ''name-explicit''"
  "rlanguage (detectLanguage offlineWorld tamilNewsChannel exampleCache) = js ''tamil''"
  by (simp_all add: tamilNewsChannel_def detectLanguage_def Let_def)

lemma offline_fetch:
  "fetchWebsite (net_of offlineWorld) d maxRetries =
     (None, [js ''https://www.'' @ d, js ''https://www.'' @ d, js ''https://'' @ d,
             js ''https://'' @ d, js ''http://www.'' @ d, js ''http://www.'' @ d])"
  by (simp add: fetchWebsite_def maxRetries_def offlineWorld_def)

lemma online_fetch:
  "fetchWebsite (net_of onlineWorld) d maxRetries =
     (Some exampleEnglishPage, [js ''https://www.'' @ d])"
  by (simp add: fetchWebsite_def maxRetries_def onlineWorld_def)

lemma sun_offline_outcome:
  "rsource (detectLanguage offlineWorld sunChannel emptyCache) = js ''pattern''"
  "rlanguage (detectLanguage offlineWorld sunChannel emptyCache) = js ''tamil''"
  by (simp_all add: sunChannel_def emptyCache_def detectLanguage_def Let_def cache_has_def
      patternFallback_def offline_fetch)

lemma exampleEnglishPage_full:
  "detectLanguageFromHTML noClassifier exampleEnglishPage False = Some (js ''tamil'')"
  by (simp add: detectLanguageFromHTML_def resolveBody_def exampleEnglishPage_meta
      exampleEnglishPage_body)

lemma sun_online_outcome:
  "rsource (detectLanguage onlineWorld sunChannel emptyCache) = js ''web''"
  "rlanguage (detectLanguage onlineWorld sunChannel emptyCache) = js ''tamil''"
  by (simp_all add: sunChannel_def emptyCache_def detectLanguage_def Let_def cache_has_def
      online_fetch exampleEnglishPage_full)
     (simp_all add: onlineWorld_def exampleEnglishPage_full)

lemma online_world_fields: "franc_of onlineWorld = noClassifier" "now_of onlineWorld = 0"
  by (simp_all add: onlineWorld_def)

lemma two_letter_en: "isTwoLetterCode (js ''en'')" "isTwoLetterCode (js ''fr'')"
  by (simp_all add: isTwoLetterCode_def js_def isLower_def)

lemma exampleEnglishPage_metaOnly:
  "detectLanguageFromHTML noClassifier exampleEnglishPage True = Some (js ''en'')"
  by (simp add: detectLanguageFromHTML_def exampleEnglishPage_meta)

lemma exampleFrenchPage_full:
  "detectLanguageFromHTML noClassifier exampleFrenchPage False = Some (js ''fr'')"
  by (simp add: detectLanguageFromHTML_def resolveBody_def exampleFrenchPage_body
      combinedSignals_def msignals_meta exampleFrenchPage_signals halved_def bodySignal_def
      mkSignal_def aggregate_fr [unfolded mkSignal_def])

theorem full_names_outside_aggregation_witness:
  "rsource (detectLanguage offlineWorld tamilNewsChannel exampleCache) = js ''name-explicit''
   \<and> rlanguage (detectLanguage offlineWorld tamilNewsChannel exampleCache) = js ''tamil''
   \<and> js ''tamil'' \<in> set fullLanguageNames \<and> \<not> isTwoLetterCode (js ''tamil'')
   \<and> map_option elanguage
         (cache (cacheAfter (detectLanguage offlineWorld tamilNewsChannel exampleCache))
            (js ''SunTV.in'')) = Some (js ''tamil'')
   \<and> rsource (detectLanguage offlineWorld sunChannel emptyCache) = js ''pattern''
   \<and> map_option elanguage
         (cache (cacheAfter (detectLanguage offlineWorld sunChannel emptyCache))
            (js ''SunTV.in'')) = Some (js ''tamil'')
   \<and> detectLanguageFromHTML noClassifier exampleEnglishPage False = Some (js ''tamil'')
   \<and> rsource (detectLanguage onlineWorld sunChannel emptyCache) = js ''web''
   \<and> rlanguage (detectLanguage onlineWorld sunChannel emptyCache) = js ''tamil''
   \<and> cache (cacheAfter (detectLanguage onlineWorld sunChannel emptyCache)) (js ''SunTV.in'')
       = Some \<lparr>elanguage = js ''tamil'', esource = js ''web'', timestamp = 0\<rparr>
   \<and> detectLanguageFromHTML noClassifier exampleFrenchPage False = Some (js ''fr'')
   \<and> isTwoLetterCode (js ''fr'')
   \<and> Some (js ''fr'')
       = aggregateLanguageSignals
           (combinedSignals (detectLanguageFromMetadata exampleFrenchPage)
              (detectLanguageFromBodyText noClassifier exampleFrenchPage))
   \<and> detectLanguageFromHTML noClassifier exampleEnglishPage True = Some (js ''en'')
   \<and> Some (js ''en'') = aggregateLanguageSignals (metadataSignals exampleEnglishPage)"
proof -
  note T = full_names_outside_aggregation [of offlineWorld tamilNewsChannel exampleCache
      noClassifier exampleEnglishPage onlineWorld sunChannel emptyCache
      noClassifier exampleFrenchPage False "js ''fr''"]
  note U = full_names_outside_aggregation [of offlineWorld sunChannel emptyCache
      noClassifier exampleEnglishPage onlineWorld sunChannel emptyCache
      noClassifier exampleEnglishPage True "js ''en''"]
  have d: "extractDomain (tvgId tamilNewsChannel) = Some (js ''SunTV.in'')"
    "extractDomain (tvgId sunChannel) = Some (js ''SunTV.in'')"
    by (simp_all add: tamilNewsChannel_def sunChannel_def)
  have 1: "js ''tamil'' \<in> set fullLanguageNames \<and> \<not> isTwoLetterCode (js ''tamil'')
      \<and> map_option elanguage
            (cache (cacheAfter (detectLanguage offlineWorld tamilNewsChannel exampleCache))
               (js ''SunTV.in'')) = Some (js ''tamil'')"
    using T [THEN conjunct1] d(1) by (simp add: tamilNews_outcome)
  have 2: "map_option elanguage
            (cache (cacheAfter (detectLanguage offlineWorld sunChannel emptyCache))
               (js ''SunTV.in'')) = Some (js ''tamil'')"
    using U [THEN conjunct1] d(2) by (simp add: sun_offline_outcome)
  have 3: "\<exists>l. detectLanguageFromHTML noClassifier exampleEnglishPage False = Some l
             \<and> l \<in> set fullLanguageNames \<and> \<not> isTwoLetterCode l"
    using T [THEN conjunct2, THEN conjunct1]
    by (simp add: exampleEnglishPage_meta exampleEnglishPage_body)
  obtain dd h2 where 4: "extractDomain (tvgId sunChannel) = Some dd"
      "cache (cacheAfter (detectLanguage onlineWorld sunChannel emptyCache)) dd
        = Some \<lparr>elanguage = rlanguage (detectLanguage onlineWorld sunChannel emptyCache),
                 esource = js ''web'', timestamp = now_of onlineWorld\<rparr>"
    using T [THEN conjunct2, THEN conjunct2, THEN conjunct1] sun_online_outcome(1) by blast
  have 5: "cache (cacheAfter (detectLanguage onlineWorld sunChannel emptyCache)) (js ''SunTV.in'')
        = Some \<lparr>elanguage = js ''tamil'', esource = js ''web'', timestamp = 0\<rparr>"
    using 4 d(2) by (simp add: sun_online_outcome online_world_fields)
  have 6: "Some (js ''fr'')
       = aggregateLanguageSignals
           (combinedSignals (detectLanguageFromMetadata exampleFrenchPage)
              (detectLanguageFromBodyText noClassifier exampleFrenchPage))"
    using T [THEN conjunct2, THEN conjunct2, THEN conjunct2]
    by (simp add: exampleFrenchPage_full two_letter_en)
  have 7: "Some (js ''en'') = aggregateLanguageSignals (metadataSignals exampleEnglishPage)"
    using U [THEN conjunct2, THEN conjunct2, THEN conjunct2]
    by (simp add: exampleEnglishPage_metaOnly two_letter_en)
  show ?thesis
    using 1 2 5 6 7
    by (simp add: tamilNews_outcome sun_offline_outcome sun_online_outcome
        exampleEnglishPage_metaOnly two_letter_en exampleEnglishPage_full exampleFrenchPage_full)
qed


section \<open>Values that name an inherited property\<close>

lemma normalize_constructor:
  "normalizeLanguageCode (js ''constructor'') = Inherited (js ''constructor'')"
  by (simp add: eval_defs)

lemma normalize_klingon: "normalizeLanguageCode (js ''klingon'') = Absent"
  by (simp add: eval_defs)

lemma aggregate_constructor:
  "aggregateLanguageSignals [mkSignal ''html-lang'' (js ''constructor'') w]
     = Some (js ''function Object() { [native code] }'')"
  by (simp add: aggregateLanguageSignals_def scoreSignal_def mkSignal_def normalize_constructor
      inheritedToString_def) (simp add: js_def)

lemma aggregate_klingon:
  "aggregateLanguageSignals [mkSignal ''html-lang'' (js ''klingon'') w] = None"
  by (simp add: aggregateLanguageSignals_def scoreSignal_def mkSignal_def normalize_klingon)

lemma prototypePage_signals:
  "metadataSignals prototypePage = [mkSignal ''html-lang'' (js ''constructor'') 10]"
  by (simp add: prototypePage_def metadataSignals_def extractMetadata_def pushIf_def
      detectLanguageFromDescription_def languageMentions_def detectLanguageFromResources_def
      resourcePatterns_def class_defs re_defs str_defs)

lemma prototypePage_body:
  "detectLanguageFromBodyText noClassifier prototypePage =
     \<lparr>language = None, confidence = 0, dmethod = js ''insufficient-text''\<rparr>"
  by (simp add: prototypePage_def detectLanguageFromBodyText_def analyzeTextLanguage_def
      cleanText_def detectLanguageFromDescription_def languageMentions_def class_defs re_defs
      str_defs)

text \<open>
  Claim C5 at a value that names an inherited property. \<open>langMap[normalized] || null\<close>
  reads the prototype chain, so for the value \<open>constructor\<close> the result of
  \<open>normalizeLanguageCode\<close> is the function \<open>Object\<close>, which is truthy: the signal is not
  discarded, its weight is stored under the key that the function is converted to, and
  \<open>aggregateLanguageSignals\<close> returns that key, where a value that does not normalise
  (such as \<open>klingon\<close>) gives \<open>null\<close>. A page with \<open>lang="constructor"\<close> is resolved to
  the same string.
\<close>

theorem aggregate_inherited_property:
  "normalizeLanguageCode (js ''constructor'') = Inherited (js ''constructor'')
   \<and> aggregateLanguageSignals [mkSignal ''html-lang'' (js ''constructor'') 10]
       = Some (js ''function Object() { [native code] }'')
   \<and> aggregateLanguageSignals [mkSignal ''html-lang'' (js ''klingon'') 10] = None
   \<and> metadataSignals prototypePage = [mkSignal ''html-lang'' (js ''constructor'') 10]
   \<and> detectLanguageFromHTML noClassifier prototypePage False
       = Some (js ''function Object() { [native code] }'')"
proof (intro conjI)
  show "detectLanguageFromHTML noClassifier prototypePage False
       = Some (js ''function Object() { [native code] }'')"
    by (simp add: detectLanguageFromHTML_def resolveBody_def prototypePage_body
        combinedSignals_def msignals_meta prototypePage_signals halved_def bodySignal_def
        mkSignal_def aggregate_constructor [unfolded mkSignal_def])
qed (rule normalize_constructor aggregate_constructor aggregate_klingon prototypePage_signals)+


section \<open>What the patterns match\<close>

text \<open>The matcher, from a state, reaches exactly the states that the meaning of a plain
  pattern describes.\<close>

lemma prevAfter_Nil [simp]: "prevAfter p [] = p"
  by (simp add: prevAfter_def)

lemma prevAfter_append [simp]: "prevAfter (prevAfter p u) v = prevAfter p (u @ v)"
  by (simp add: prevAfter_def)

lemma prevAfter_single [simp]: "prevAfter p [c] = Some c"
  by (simp add: prevAfter_def)

declare ends.simps(6) [simp del]

lemma ends_Cls: "set (ends (Cls P) st) = reach (Cls P) st"
  by (cases st; cases "snd st") (auto simp: reach_def)

lemma ends_Seq_set: "set (ends (Seq a b) st) = (\<Union>m\<in>set (ends a st). set (ends b m))"
  by simp

lemma reach_Seq:
  "reach (Seq a b) st = (\<Union>m\<in>reach a st. reach b m)"
  apply (cases st)
  apply (auto simp: reach_def)
   apply (metis prevAfter_append)
  apply blast
  done

lemma reachI: "u \<in> lang r \<Longrightarrow> s = u @ s' \<Longrightarrow> (prevAfter p u, s') \<in> reach r (p, s)"
  by (auto simp: reach_def)

lemma nil_in_star: "[] \<in> lang (Star a)"
  by (auto intro: exI [of _ "[]"])

lemma concat_in_star: "set ws \<subseteq> lang a \<Longrightarrow> concat ws \<in> lang (Star a)"
  by auto

lemma star_step:
  "reach (Star a) (p, s) =
     insert (p, s) (\<Union>m\<in>{m \<in> reach a (p, s). length (snd m) < length s}. reach (Star a) m)"
proof (intro set_eqI iffI)
  fix x assume "x \<in> reach (Star a) (p, s)"
  then obtain ws s' where x: "x = (prevAfter p (concat ws), s')" and ws: "set ws \<subseteq> lang a"
    and s: "s = concat ws @ s'"
    by (auto simp: reach_def)
  define vs where "vs = filter (\<lambda>w. w \<noteq> []) ws"
  have cv: "concat vs = concat ws"
    unfolding vs_def by (induction ws) auto
  have vsub: "set vs \<subseteq> lang a" and vne: "\<forall>w\<in>set vs. w \<noteq> []"
    using ws by (auto simp: vs_def)
  show "x \<in> insert (p, s) (\<Union>m\<in>{m \<in> reach a (p, s). length (snd m) < length s}. reach (Star a) m)"
  proof (cases vs)
    case Nil
    then have c: "concat ws = []" using cv by simp
    have "x = (p, s)" using x s by (simp only: c prevAfter_Nil append_Nil)
    then show ?thesis by simp
  next
    case (Cons u us)
    then have u: "u \<in> lang a" "u \<noteq> []" and us: "set us \<subseteq> lang a"
      using vsub vne by auto
    have cw: "concat ws = u @ concat us"
      using cv Cons by simp
    let ?m = "(prevAfter p u, concat us @ s')"
    have "?m \<in> reach a (p, s)"
      using u s by (auto simp: reach_def cw)
    moreover have "length (snd ?m) < length s"
      using u s by (simp add: cw)
    moreover have "x \<in> reach (Star a) ?m"
      using x us by (auto simp: reach_def cw)
    ultimately show ?thesis by blast
  qed
next
  fix x assume "x \<in> insert (p, s) (\<Union>m\<in>{m \<in> reach a (p, s). length (snd m) < length s}. reach (Star a) m)"
  then consider "x = (p, s)" | m where "m \<in> reach a (p, s)" "x \<in> reach (Star a) m"
    by auto
  then show "x \<in> reach (Star a) (p, s)"
  proof cases
    case 1
    have "(prevAfter p [], s) \<in> reach (Star a) (p, s)"
      by (rule reachI [OF nil_in_star]) simp
    then show ?thesis using 1 by simp
  next
    case 2
    then obtain u s1 where m: "m = (prevAfter p u, s1)" "u \<in> lang a" "s = u @ s1"
      by (auto simp: reach_def)
    from 2 m obtain ws s' where x: "x = (prevAfter (prevAfter p u) (concat ws), s')"
      "set ws \<subseteq> lang a" "s1 = concat ws @ s'"
      by (auto simp: reach_def)
    have e: "x = (prevAfter p (concat (u # ws)), s')" and sub: "set (u # ws) \<subseteq> lang a"
      and s': "s = concat (u # ws) @ s'"
      using x m by auto
    show ?thesis
      unfolding e by (rule reachI [OF concat_in_star [OF sub] s'])
  qed
qed

lemma ends_Star:
  assumes a: "\<And>st. set (ends a st) = reach a st"
  shows "set (ends (Star a) (p, s)) = reach (Star a) (p, s)"
proof (induction "length s" arbitrary: p s rule: less_induct)
  case less
  have "set (ends (Star a) (p, s)) =
        insert (p, s) (\<Union>m\<in>{m \<in> set (ends a (p, s)). length (snd m) < length s}.
                          set (ends (Star a) m))"
    by (subst ends.simps(6)) auto
  also have "\<dots> = insert (p, s) (\<Union>m\<in>{m \<in> reach a (p, s). length (snd m) < length s}.
                          reach (Star a) m)"
    using less by (auto simp: a)
  finally show ?case
    by (simp add: star_step [symmetric])
qed

lemma ends_plain: "plain r \<Longrightarrow> set (ends r st) = reach r st"
proof (induction r arbitrary: st)
  case (Cls P)
  show ?case by (rule ends_Cls)
next
  case Eps
  show ?case by (cases st) (auto simp: reach_def)
next
  case (Seq a b)
  then show ?case by (simp add: reach_Seq)
next
  case (Alt a b)
  then show ?case by (cases st) (auto simp: reach_def)
next
  case (Star a)
  then show ?case by (cases st) (simp add: ends_Star)
qed simp_all


lemma ends_Seq_nonempty:
  "ends (Seq a b) st \<noteq> [] \<longleftrightarrow> (\<exists>m\<in>set (ends a st). ends b m \<noteq> [])"
  by auto

lemma ends_Seq_plain:
  "plain a \<Longrightarrow>
   ends (Seq a b) (p, s) \<noteq> [] \<longleftrightarrow>
     (\<exists>u s'. u \<in> lang a \<and> s = u @ s' \<and> ends b (prevAfter p u, s') \<noteq> [])"
  unfolding ends_Seq_nonempty by (auto simp: ends_plain reach_def)

lemma ends_Eol_end: "ends (Seq Eol Eps) (p, s) \<noteq> [] \<longleftrightarrow> s = []"
  by simp

lemma prevAfter_Cons: "prevAfter p (c # u) = prevAfter (Some c) u"
  by (simp add: prevAfter_def)

lemma searchFrom_iff:
  "searchFrom r p s \<longleftrightarrow> (\<exists>pre post. s = pre @ post \<and> ends r (prevAfter p pre, post) \<noteq> [])"
proof (induction s arbitrary: p)
  case Nil
  show ?case by simp
next
  case (Cons c cs)
  show ?case
  proof
    assume "searchFrom r p (c # cs)"
    then consider "ends r (p, c # cs) \<noteq> []" | "searchFrom r (Some c) cs"
      by auto
    then show "\<exists>pre post. c # cs = pre @ post \<and> ends r (prevAfter p pre, post) \<noteq> []"
    proof cases
      case 1
      then have "c # cs = [] @ (c # cs) \<and> ends r (prevAfter p [], c # cs) \<noteq> []" by simp
      then show ?thesis by blast
    next
      case 2
      then obtain pre post where "cs = pre @ post" "ends r (prevAfter (Some c) pre, post) \<noteq> []"
        using Cons.IH by blast
      then have "c # cs = (c # pre) @ post \<and> ends r (prevAfter p (c # pre), post) \<noteq> []"
        by (simp add: prevAfter_Cons)
      then show ?thesis by blast
    qed
  next
    assume "\<exists>pre post. c # cs = pre @ post \<and> ends r (prevAfter p pre, post) \<noteq> []"
    then obtain pre post where e: "c # cs = pre @ post" "ends r (prevAfter p pre, post) \<noteq> []"
      by blast
    show "searchFrom r p (c # cs)"
    proof (cases pre)
      case Nil
      then have "ends r (p, c # cs) \<noteq> []" using e by auto
      then show ?thesis by simp
    next
      case (Cons x xs)
      then have "cs = xs @ post" "ends r (prevAfter (Some c) xs, post) \<noteq> []"
        using e by (auto simp: prevAfter_Cons)
      then have "searchFrom r (Some c) cs"
        using Cons.IH by blast
      then show ?thesis by simp
    qed
  qed
qed


section \<open>The pattern of domain names\<close>

lemma splitOn_not_Nil [simp]: "splitOn sep s \<noteq> []"
  by (induction s) (auto split: list.splits)

lemma hd_splitOn: "hd (splitOn sep s) = takeWhile (\<lambda>c. c \<noteq> sep) s"
  by (induction s) (auto split: list.splits)

lemma splitOn_no_sep: "sep \<notin> set l \<Longrightarrow> splitOn sep (l @ sep # t) = l # splitOn sep t"
  by (induction l) (auto split: list.splits)

lemma splitOn_plain: "sep \<notin> set l \<Longrightarrow> splitOn sep l = [l]"
  by (induction l) (auto split: list.splits)

lemma splitOn_join:
  "sep \<notin> set l \<Longrightarrow> \<forall>x\<in>set ls. sep \<notin> set x
   \<Longrightarrow> splitOn sep (l @ concat (map ((#) sep) ls)) = l # ls"
proof (induction ls arbitrary: l)
  case Nil
  then show ?case by (simp add: splitOn_plain)
next
  case (Cons x xs)
  then show ?case by (simp add: splitOn_no_sep)
qed

lemma splitOn_decomp:
  "splitOn sep d = l # ls
   \<Longrightarrow> d = l @ concat (map ((#) sep) ls) \<and> sep \<notin> set l \<and> (\<forall>x\<in>set ls. sep \<notin> set x)"
proof (induction d arbitrary: l ls)
  case Nil
  then show ?case by simp
next
  case (Cons c cs)
  show ?case
  proof (cases "c = sep")
    case True
    with Cons.prems have l: "l = []" and r: "splitOn sep cs = ls" by auto
    obtain x xs where ls: "ls = x # xs"
      using r splitOn_not_Nil [of sep cs] by (cases ls) auto
    from Cons.IH [of x xs] r ls True l show ?thesis by auto
  next
    case False
    obtain x xs where sp: "splitOn sep cs = x # xs"
      using splitOn_not_Nil [of sep cs] by (cases "splitOn sep cs") auto
    with Cons.prems False have "l = c # x" "ls = xs" by auto
    with Cons.IH [OF sp] False show ?thesis by auto
  qed
qed

lemma lang_SeqI: "u \<in> lang a \<Longrightarrow> v \<in> lang b \<Longrightarrow> u @ v \<in> lang (Seq a b)"
  by auto

lemma lang_Star_Cls: "lang (Star (Cls P)) = {w. \<forall>c\<in>set w. P c}"
proof (intro set_eqI iffI)
  fix w assume "w \<in> lang (Star (Cls P))"
  then obtain ws where "w = concat ws" "set ws \<subseteq> {[c] | c. P c}" by auto
  then show "w \<in> {w. \<forall>c\<in>set w. P c}" by auto
next
  fix w assume "w \<in> {w. \<forall>c\<in>set w. P c}"
  then have "set (map (\<lambda>c. [c]) w) \<subseteq> lang (Cls P)" by auto
  then have "concat (map (\<lambda>c. [c]) w) \<in> lang (Star (Cls P))"
    by (rule concat_in_star)
  moreover have "concat (map (\<lambda>c. [c]) w) = w" by (induction w) auto
  ultimately show "w \<in> lang (Star (Cls P))" by simp
qed

lemma lang_AtLeast2: "lang (AtLeast 2 (Cls P)) = {w. 2 \<le> length w \<and> (\<forall>c\<in>set w. P c)}"
proof (intro set_eqI iffI)
  fix w assume "w \<in> lang (AtLeast 2 (Cls P))"
  then obtain a b v where "w = a # b # v" "P a" "P b" "v \<in> lang (Star (Cls P))"
    by (auto simp: AtLeast_def simp del: lang.simps(5))
  then show "w \<in> {w. 2 \<le> length w \<and> (\<forall>c\<in>set w. P c)}"
    by (auto simp: lang_Star_Cls simp del: lang.simps(5))
next
  fix w assume a: "w \<in> {w. 2 \<le> length w \<and> (\<forall>c\<in>set w. P c)}"
  then obtain x y v where w: "w = x # y # v"
    by (cases w; cases "tl w") auto
  with a have p: "P x" "P y" and v: "v \<in> lang (Star (Cls P))"
    by (auto simp: lang_Star_Cls simp del: lang.simps(5))
  have "[x] @ [y] @ [] \<in> lang (Seq (Cls P) (Seq (Cls P) Eps))"
    using p by (intro lang_SeqI) auto
  then have "([x] @ [y] @ []) @ v \<in> lang (Seq (Seq (Cls P) (Seq (Cls P) Eps)) (Star (Cls P)))"
    using v by (rule lang_SeqI)
  with w show "w \<in> lang (AtLeast 2 (Cls P))"
    by (simp add: AtLeast_def del: lang.simps)
qed


lemma lang_tld:
  "lang (Seq (Chr 46) (AtLeast 2 (Cls isAlpha))) = {46 # l | l. alphaLabel l}"
proof -
  have "lang (Seq (Chr 46) (AtLeast 2 (Cls isAlpha)))
        = {u @ v | u v. u \<in> lang (Chr 46) \<and> v \<in> lang (AtLeast 2 (Cls isAlpha))}"
    by simp
  also have "\<dots> = {46 # l | l. alphaLabel l}"
    unfolding lang_AtLeast2 by (auto simp: Chr_def alphaLabel_def list_all_iff)
  finally show ?thesis .
qed

lemma tld_words:
  "set ws \<subseteq> {46 # l | l. alphaLabel l}
   \<longleftrightarrow> (\<exists>ls. ws = map ((#) 46) ls \<and> list_all alphaLabel ls)"
proof (induction ws)
  case Nil
  show ?case by simp
next
  case (Cons w ws)
  show ?case
  proof
    assume a: "set (w # ws) \<subseteq> {46 # l | l. alphaLabel l}"
    then obtain l where l: "w = 46 # l" "alphaLabel l" by auto
    from a Cons.IH obtain ls where ls: "ws = map ((#) 46) ls" "list_all alphaLabel ls" by auto
    have "w # ws = map ((#) 46) (l # ls) \<and> list_all alphaLabel (l # ls)"
      using l ls by simp
    then show "\<exists>ls. w # ws = map ((#) 46) ls \<and> list_all alphaLabel ls"
      by (rule exI [of _ "l # ls"])
  next
    assume "\<exists>ls. w # ws = map ((#) 46) ls \<and> list_all alphaLabel ls"
    then show "set (w # ws) \<subseteq> {46 # l | l. alphaLabel l}"
      by (auto simp: list_all_iff)
  qed
qed

lemma lang_Plus: "lang (Plus r) = {concat ws | ws. ws \<noteq> [] \<and> set ws \<subseteq> lang r}"
proof (intro set_eqI iffI)
  fix x assume "x \<in> lang (Plus r)"
  then obtain g ws where "x = g @ concat ws" "g \<in> lang r" "set ws \<subseteq> lang r"
    by (auto simp: Plus_def)
  then have "x = concat (g # ws) \<and> g # ws \<noteq> [] \<and> set (g # ws) \<subseteq> lang r" by simp
  then show "x \<in> {concat ws | ws. ws \<noteq> [] \<and> set ws \<subseteq> lang r}" by blast
next
  fix x assume "x \<in> {concat ws | ws. ws \<noteq> [] \<and> set ws \<subseteq> lang r}"
  then obtain w ws where "x = concat (w # ws)" "set (w # ws) \<subseteq> lang r"
    by (auto simp: neq_Nil_conv)
  then have "x = w @ concat ws" "w \<in> lang r" "concat ws \<in> lang (Star r)"
    by auto
  then show "x \<in> lang (Plus r)"
    unfolding Plus_def using lang_SeqI by blast
qed

lemma lang_tlds:
  "lang (Plus (Seq (Chr 46) (AtLeast 2 (Cls isAlpha))))
   = {concat (map ((#) 46) ls) | ls. ls \<noteq> [] \<and> list_all alphaLabel ls}"
  unfolding lang_Plus lang_tld tld_words by auto

lemma alnum_hyphen: "isAlnum c \<Longrightarrow> isAlnumHyphen c"
  by (simp add: isAlnumHyphen_def)

lemma lang_first:
  "lang (Seq (Cls isAlnum) (Opt (Seq (Star (Cls isAlnumHyphen)) (Cls isAlnum))))
   = {l. firstLabel l}"
proof (intro set_eqI iffI)
  fix l assume "l \<in> lang (Seq (Cls isAlnum) (Opt (Seq (Star (Cls isAlnumHyphen)) (Cls isAlnum))))"
  then obtain c u where l: "l = c # u" "isAlnum c"
    and u: "u = [] \<or> (\<exists>h n. u = h @ [n] \<and> h \<in> lang (Star (Cls isAlnumHyphen)) \<and> isAlnum n)"
    by (auto simp: Opt_def simp del: lang.simps(5))
  then show "l \<in> {l. firstLabel l}"
    by (auto simp: firstLabel_def lang_Star_Cls list_all_iff alnum_hyphen simp del: lang.simps(5))
next
  fix l assume "l \<in> {l. firstLabel l}"
  then obtain c u where l: "l = c # u" and f: "firstLabel (c # u)"
    by (cases l) (auto simp: firstLabel_def)
  have c: "[c] \<in> lang (Cls isAlnum)"
    using f by (simp add: firstLabel_def)
  have "u \<in> lang (Opt (Seq (Star (Cls isAlnumHyphen)) (Cls isAlnum)))"
  proof (cases "u = []")
    case True
    then show ?thesis by (simp add: Opt_def del: lang.simps(5))
  next
    case False
    then have u: "u = butlast u @ [last u]" by simp
    have "butlast u \<in> lang (Star (Cls isAlnumHyphen))"
      using f by (auto simp: firstLabel_def lang_Star_Cls list_all_iff dest: in_set_butlastD
          simp del: lang.simps(5))
    moreover have "[last u] \<in> lang (Cls isAlnum)"
      using f False by (simp add: firstLabel_def)
    ultimately have "butlast u @ [last u] \<in> lang (Seq (Star (Cls isAlnumHyphen)) (Cls isAlnum))"
      by (rule lang_SeqI)
    with u show ?thesis by (simp add: Opt_def del: lang.simps(3,5))
  qed
  with c have "[c] @ u \<in> lang (Seq (Cls isAlnum) (Opt (Seq (Star (Cls isAlnumHyphen)) (Cls isAlnum))))"
    by (rule lang_SeqI)
  with l show "l \<in> lang (Seq (Cls isAlnum) (Opt (Seq (Star (Cls isAlnumHyphen)) (Cls isAlnum))))"
    by simp
qed


lemma plain_parts:
  "plain (Cls P)" "plain (Opt (Seq (Star (Cls P)) (Cls Q)))"
  "plain (Plus (Seq (Chr c) (AtLeast 2 (Cls P))))"
  by (simp_all add: Opt_def Plus_def Chr_def AtLeast_def)

lemma domainRe_lang:
  "re_test domainRe d \<longleftrightarrow>
     (\<exists>l t. d = l @ t
        \<and> l \<in> lang (Seq (Cls isAlnum) (Opt (Seq (Star (Cls isAlnumHyphen)) (Cls isAlnum))))
        \<and> t \<in> lang (Plus (Seq (Chr 46) (AtLeast 2 (Cls isAlpha)))))"
proof -
  let ?A = "Cls isAlnum"
  let ?O = "Opt (Seq (Star (Cls isAlnumHyphen)) (Cls isAlnum))"
  let ?P = "Plus (Seq (Chr 46) (AtLeast 2 (Cls isAlpha)))"
  have "re_test domainRe d \<longleftrightarrow> ends (Seq ?A (Seq ?O (Seq ?P (Seq Eol Eps)))) (None, d) \<noteq> []"
    by (simp add: domainRe_def seqs_def re_test_Bol)
  also have "\<dots> \<longleftrightarrow> (\<exists>u1 s1. u1 \<in> lang ?A \<and> d = u1 @ s1
      \<and> (\<exists>u2 s2. u2 \<in> lang ?O \<and> s1 = u2 @ s2
      \<and> (\<exists>u3 s3. u3 \<in> lang ?P \<and> s2 = u3 @ s3 \<and> s3 = [])))"
    by (simp only: ends_Seq_plain [OF plain_parts(1)] ends_Seq_plain [OF plain_parts(2)]
        ends_Seq_plain [OF plain_parts(3)] ends_Eol_end)
  also have "\<dots> \<longleftrightarrow> (\<exists>u1 u2 u3. u1 \<in> lang ?A \<and> u2 \<in> lang ?O \<and> u3 \<in> lang ?P
      \<and> d = u1 @ u2 @ u3)"
    by auto
  also have "\<dots> \<longleftrightarrow> (\<exists>l t. d = l @ t \<and> l \<in> lang (Seq ?A ?O) \<and> t \<in> lang ?P)"
  proof
    assume "\<exists>u1 u2 u3. u1 \<in> lang ?A \<and> u2 \<in> lang ?O \<and> u3 \<in> lang ?P \<and> d = u1 @ u2 @ u3"
    then obtain u1 u2 u3 where u: "u1 \<in> lang ?A" "u2 \<in> lang ?O" "u3 \<in> lang ?P"
      "d = u1 @ u2 @ u3" by blast
    then have "d = (u1 @ u2) @ u3 \<and> u1 @ u2 \<in> lang (Seq ?A ?O) \<and> u3 \<in> lang ?P"
      using lang_SeqI [OF u(1) u(2)] by simp
    then show "\<exists>l t. d = l @ t \<and> l \<in> lang (Seq ?A ?O) \<and> t \<in> lang ?P" by blast
  next
    assume "\<exists>l t. d = l @ t \<and> l \<in> lang (Seq ?A ?O) \<and> t \<in> lang ?P"
    then obtain l t where lt: "d = l @ t" "l \<in> lang (Seq ?A ?O)" "t \<in> lang ?P" by blast
    from lt(2) obtain u1 u2 where "l = u1 @ u2" "u1 \<in> lang ?A" "u2 \<in> lang ?O"
      by (auto simp del: lang.simps(1))
    with lt show "\<exists>u1 u2 u3. u1 \<in> lang ?A \<and> u2 \<in> lang ?O \<and> u3 \<in> lang ?P \<and> d = u1 @ u2 @ u3"
      by auto
  qed
  finally show ?thesis .
qed

lemma label_no_dot:
  "firstLabel l \<Longrightarrow> 46 \<notin> set l" "alphaLabel x \<Longrightarrow> 46 \<notin> set x"
  by (auto simp: firstLabel_def alphaLabel_def list_all_iff class_defs)

lemma codeHostname_iff:
  "codeHostname d \<longleftrightarrow>
     (\<exists>l ls. d = l @ concat (map ((#) 46) ls) \<and> firstLabel l \<and> ls \<noteq> [] \<and> list_all alphaLabel ls)"
proof
  assume "codeHostname d"
  then obtain l ls where sp: "splitOn 46 d = l # ls" and c: "firstLabel l" "ls \<noteq> []"
    "list_all alphaLabel ls"
    by (auto simp: codeHostname_def split: list.splits)
  from splitOn_decomp [OF sp] c
  show "\<exists>l ls. d = l @ concat (map ((#) 46) ls) \<and> firstLabel l \<and> ls \<noteq> [] \<and> list_all alphaLabel ls"
    by blast
next
  assume "\<exists>l ls. d = l @ concat (map ((#) 46) ls) \<and> firstLabel l \<and> ls \<noteq> [] \<and> list_all alphaLabel ls"
  then obtain l ls where d: "d = l @ concat (map ((#) 46) ls)" and c: "firstLabel l" "ls \<noteq> []"
    "list_all alphaLabel ls" by blast
  have "splitOn 46 d = l # ls"
    unfolding d using c by (intro splitOn_join) (auto simp: label_no_dot list_all_iff)
  with c show "codeHostname d"
    by (simp add: codeHostname_def)
qed

lemma domainRe_codeHostname: "re_test domainRe d \<longleftrightarrow> codeHostname d"
  unfolding domainRe_lang lang_first lang_tlds codeHostname_iff by auto

lemma extractDomain_char:
  "extractDomain (JStr s) =
     (let d = trim (takeWhile (\<lambda>c. c \<noteq> 64) s) in if codeHostname d then Some d else None)"
proof (cases "s = []")
  case True
  then show ?thesis
    by (simp add: extractDomain_def trim_def codeHostname_def firstLabel_def)
next
  case False
  obtain p0 ps where sp: "splitOn 64 s = p0 # ps"
    using splitOn_not_Nil [of 64 s] by (cases "splitOn 64 s") auto
  then have p0: "p0 = takeWhile (\<lambda>c. c \<noteq> 64) s"
    using hd_splitOn [of 64 s] by simp
  have ne: "codeHostname d \<Longrightarrow> d \<noteq> []" for d
    by (auto simp: codeHostname_def firstLabel_def)
  show ?thesis
    using False sp ne by (auto simp: extractDomain_def Let_def p0 [symmetric] domainRe_codeHostname)
qed


section \<open>The domain of a channel\<close>

lemma extractDomain_candidate:
  "extractDomain (JStr s) = (if codeHostname (candidate s) then Some (candidate s) else None)"
  by (simp add: extractDomain_char candidate_def Let_def)


lemmas host_defs = codeHostname_def specHostname_def firstLabel_def alphaLabel_def candidate_def

lemma candidate_examples:
  "candidate (js ''SunTV.in@HD'') = js ''SunTV.in''"
  "candidate (js ''SunTV.in'') = js ''SunTV.in''"
  "candidate (js ''NotADomain'') = js ''NotADomain''"
  "candidate (js ''www.9xm.in@SD'') = js ''www.9xm.in''"
  by (simp_all add: candidate_def str_defs class_defs)


lemma hostname_examples:
  "codeHostname (js ''SunTV.in'')" "\<not> codeHostname (js ''NotADomain'')"
  "\<not> codeHostname (js ''www.9xm.in'')" "specHostname (js ''www.9xm.in'')"
  by (simp_all add: host_defs class_defs js_def)




text \<open>
  Claim C7, as stated, fails: \<open>www.9xm.in\<close> fits the grammar of the claim (three labels
  of letters and digits, the last one of two letters), and \<open>extractDomain\<close> yields \<open>null\<close>
  for \<open>www.9xm.in@SD\<close>, because the pattern admits letters only in every label after the
  first.
\<close>

theorem domain_grammar_counterexample:
  "specHostname (js ''www.9xm.in'')
   \<and> candidate (js ''www.9xm.in@SD'') = js ''www.9xm.in''
   \<and> extractDomain (JStr (js ''www.9xm.in@SD'')) = None"
  by (simp add: extractDomain_candidate candidate_examples hostname_examples)

text \<open>
  Claim C7, amended. For every \<open>tvgId\<close> string, \<open>extractDomain\<close> takes the trimmed text
  before the first \<open>@\<close> as the candidate and returns it exactly when the candidate is a
  first label of letters and digits with optional inner hyphens, followed by one or more
  labels, separated by dots, of two or more letters each (in either case); every other
  candidate yields \<open>null\<close>.
\<close>

theorem extractDomain_grammar:
  "extractDomain (JStr s) = (if codeHostname (candidate s) then Some (candidate s) else None)"
  by (rule extractDomain_candidate)

theorem extractDomain_grammar_witness:
  "codeHostname (candidate (js ''SunTV.in@HD''))
   \<and> extractDomain (JStr (js ''SunTV.in@HD'')) = Some (js ''SunTV.in'')
   \<and> \<not> codeHostname (candidate (js ''www.9xm.in@SD''))
   \<and> extractDomain (JStr (js ''www.9xm.in@SD'')) = None"
  using extractDomain_grammar [of "js ''SunTV.in@HD''"]
    extractDomain_grammar [of "js ''www.9xm.in@SD''"]
  by (simp add: candidate_examples hostname_examples)


section \<open>Explicit mentions in the channel name\<close>

lemma searchFrom_Alt: "searchFrom (Alt a b) p s \<longleftrightarrow> searchFrom a p s \<or> searchFrom b p s"
  by (induction s arbitrary: p) auto

lemma re_test_Alt: "re_test (Alt a b) s \<longleftrightarrow> re_test a s \<or> re_test b s"
  by (simp add: re_test_def searchFrom_Alt)

lemma re_test_alts: "rs \<noteq> [] \<Longrightarrow> re_test (alts rs) s \<longleftrightarrow> (\<exists>r\<in>set rs. re_test r s)"
  by (induction rs rule: alts.induct) (auto simp: re_test_Alt)

lemma toLowerCase_no_upper: "c \<in> set (toLowerCase s) \<Longrightarrow> \<not> isUpper c"
  by (auto simp: toLowerCase_def lowerUnit_def isUpper_def split: if_splits)

lemma ciUnit_lower: "isLower c \<Longrightarrow> \<not> isUpper x \<Longrightarrow> ciUnit c x \<longleftrightarrow> x = c"
  by (auto simp: ciUnit_def isLower_def isUpper_def)

lemma plain_seqs_cls: "plain (seqs (map (\<lambda>c. Cls (P c)) w))"
  by (induction w) (simp_all add: seqs_def)

lemma lang_SeqI2: "u \<in> lang a \<Longrightarrow> v \<in> lang b \<Longrightarrow> u @ v \<in> lang (Seq a b)"
  by auto

lemma lang_Seq_Cls: "lang (Seq (Cls Q) r) = {x # v | x v. Q x \<and> v \<in> lang r}"
proof (intro set_eqI iffI)
  fix u assume "u \<in> lang (Seq (Cls Q) r)"
  then obtain x v where "u = [x] @ v" "Q x" "v \<in> lang r" by auto
  then show "u \<in> {x # v | x v. Q x \<and> v \<in> lang r}" by auto
next
  fix u assume "u \<in> {x # v | x v. Q x \<and> v \<in> lang r}"
  then obtain x v where u: "u = x # v" "Q x" "v \<in> lang r" by auto
  have "[x] @ v \<in> lang (Seq (Cls Q) r)"
    using u by (intro lang_SeqI2) auto
  then show "u \<in> lang (Seq (Cls Q) r)" using u by simp
qed

lemma lang_seqs_cls:
  "lang (seqs (map (\<lambda>c. Cls (P c)) w)) = {u. list_all2 P w u}"
proof (induction w)
  case Nil
  show ?case by (simp add: seqs_def)
next
  case (Cons c w)
  have "lang (seqs (map (\<lambda>c. Cls (P c)) (c # w)))
        = {x # v | x v. P c x \<and> v \<in> lang (seqs (map (\<lambda>c. Cls (P c)) w))}"
    using lang_Seq_Cls [of "P c" "seqs (map (\<lambda>c. Cls (P c)) w)"] by (simp add: seqs_def)
  also have "\<dots> = {u. list_all2 P (c # w) u}"
    unfolding Cons.IH by (auto simp: list_all2_Cons1)
  finally show ?case .
qed

lemma plain_liti: "plain (liti w)"
  unfolding liti_def by (rule plain_seqs_cls [of "\<lambda>c. ciUnit (of_char c)"])

lemma lang_liti: "lang (liti w) = {u. list_all2 (\<lambda>c x. ciUnit (of_char c) x) w u}"
  unfolding liti_def by (rule lang_seqs_cls [of "\<lambda>c. ciUnit (of_char c)"])

text \<open>A word of small letters matches, among strings without capitals, itself only.\<close>

lemma liti_lower:
  assumes "\<forall>c\<in>set w. isLower (of_char c)" "\<forall>x\<in>set u. \<not> isUpper x"
  shows "list_all2 (\<lambda>c x. ciUnit (of_char c) x) w u \<longleftrightarrow> u = js w"
  using assms
proof (induction w arbitrary: u)
  case Nil
  show ?case by (auto simp: js_def)
next
  case (Cons c w)
  show ?case
  proof (cases u)
    case Nil
    then show ?thesis by (simp add: js_def)
  next
    case (Cons x xs)
    have "ciUnit (of_char c) x \<longleftrightarrow> x = of_char c"
      using Cons.prems Cons by (intro ciUnit_lower) auto
    moreover have "list_all2 (\<lambda>c x. ciUnit (of_char c) x) w xs \<longleftrightarrow> xs = js w"
      using Cons.prems Cons by (intro Cons.IH) auto
    ultimately show ?thesis
      using Cons by (auto simp: js_def)
  qed
qed


lemma ends_WordB_Seq:
  "ends (Seq WordB r) (p, t) \<noteq> [] \<longleftrightarrow> wordBefore p \<noteq> wordAhead t \<and> ends r (p, t) \<noteq> []"
  by (simp add: wordBefore_def wordAhead_def)

lemma wordBefore_prevAfter:
  "wordBefore (prevAfter None pre) \<longleftrightarrow> pre \<noteq> [] \<and> isWordChar (last pre)"
  "u \<noteq> [] \<Longrightarrow> wordBefore (prevAfter p u) \<longleftrightarrow> isWordChar (last u)"
  by (auto simp: wordBefore_def prevAfter_def)

lemma wordAhead_iff: "wordAhead t \<longleftrightarrow> t \<noteq> [] \<and> isWordChar (hd t)"
  by (cases t) (auto simp: wordAhead_def)

lemma lower_word: "isLower c \<Longrightarrow> isWordChar c"
  by (simp add: isWordChar_def isAlnum_def isAlpha_def)

lemma wordRe_search:
  "re_test (wordRe w) s \<longleftrightarrow>
     (\<exists>pre u post. s = pre @ u @ post \<and> u \<in> lang (liti w)
        \<and> wordBefore (prevAfter None pre) \<noteq> wordAhead (u @ post)
        \<and> wordBefore (prevAfter (prevAfter None pre) u) \<noteq> wordAhead post)"
proof -
  have "re_test (wordRe w) s \<longleftrightarrow>
      (\<exists>pre t. s = pre @ t
         \<and> ends (Seq WordB (Seq (liti w) (Seq WordB Eps))) (prevAfter None pre, t) \<noteq> [])"
    by (simp add: re_test_def searchFrom_iff wordRe_def seqs_def)
  also have "\<dots> \<longleftrightarrow>
      (\<exists>pre t. s = pre @ t \<and> wordBefore (prevAfter None pre) \<noteq> wordAhead t
         \<and> (\<exists>u post. u \<in> lang (liti w) \<and> t = u @ post
               \<and> wordBefore (prevAfter (prevAfter None pre) u) \<noteq> wordAhead post
               \<and> ends Eps (prevAfter (prevAfter None pre) u, post) \<noteq> []))"
    by (simp only: ends_WordB_Seq ends_Seq_plain [OF plain_liti])
  also have "\<dots> \<longleftrightarrow>
      (\<exists>pre u post. s = pre @ u @ post \<and> u \<in> lang (liti w)
        \<and> wordBefore (prevAfter None pre) \<noteq> wordAhead (u @ post)
        \<and> wordBefore (prevAfter (prevAfter None pre) u) \<noteq> wordAhead post)"
    by auto
  finally show ?thesis .
qed

lemma re_test_wordRe:
  assumes w: "w \<noteq> []" "\<forall>c\<in>set w. isLower (of_char c)"
    and s: "\<forall>x\<in>set s. \<not> isUpper x"
  shows "re_test (wordRe w) s \<longleftrightarrow> wholeWordIn (js w) s"
proof -
  have ne: "js w \<noteq> []" using w by simp
  have hdw: "isWordChar (hd (js w))" "isWordChar (last (js w))"
    using w by (auto simp: js_def hd_map last_map intro!: lower_word)
  have ahead: "wordAhead (js w @ post)" for post
    using ne hdw by (simp add: wordAhead_iff)
  have before: "wordBefore (prevAfter p (js w))" for p
    using ne hdw by (simp add: wordBefore_prevAfter)
  show ?thesis
  proof
    assume "re_test (wordRe w) s"
    then obtain pre u post where e: "s = pre @ u @ post" "u \<in> lang (liti w)"
      "wordBefore (prevAfter None pre) \<noteq> wordAhead (u @ post)"
      "wordBefore (prevAfter (prevAfter None pre) u) \<noteq> wordAhead post"
      unfolding wordRe_search by blast
    have "\<forall>x\<in>set u. \<not> isUpper x" using s e(1) by auto
    then have u: "u = js w"
      using e(2) liti_lower [OF w(2)] by (simp add: lang_liti)
    have "\<not> wordBefore (prevAfter None pre)"
      using e(3) ahead unfolding u by blast
    moreover have "\<not> wordAhead post"
      using e(4) before unfolding u by blast
    ultimately have "(pre = [] \<or> \<not> isWordChar (last pre)) \<and> (post = [] \<or> \<not> isWordChar (hd post))"
      by (auto simp: wordBefore_prevAfter wordAhead_iff)
    with e(1) u show "wholeWordIn (js w) s"
      unfolding wholeWordIn_def by blast
  next
    assume "wholeWordIn (js w) s"
    then obtain pre post where e: "s = pre @ js w @ post"
      "pre = [] \<or> \<not> isWordChar (last pre)" "post = [] \<or> \<not> isWordChar (hd post)"
      unfolding wholeWordIn_def by blast
    have "\<forall>x\<in>set (js w). \<not> isUpper x" using s e(1) by auto
    then have "js w \<in> lang (liti w)"
      using liti_lower [OF w(2), of "js w"] by (simp add: lang_liti)
    moreover have "wordBefore (prevAfter None pre) \<noteq> wordAhead (js w @ post)"
      using e(2) ahead by (auto simp: wordBefore_prevAfter)
    moreover have "\<not> wordAhead post"
      using e(3) by (auto simp: wordAhead_iff)
    then have "wordBefore (prevAfter (prevAfter None pre) (js w)) \<noteq> wordAhead post"
      using before [of "prevAfter None pre"] by blast
    ultimately show "re_test (wordRe w) s"
      unfolding wordRe_search using e(1) by blast
  qed
qed


lemma explicitPatterns_words:
  "explicitPatterns = map (\<lambda>(l, ws). (l, alts (map wordRe ws))) explicitWords"
  by (simp add: explicitPatterns_def explicitWords_def)

lemma explicitWords_ok:
  "(l, ws) \<in> set explicitWords
   \<Longrightarrow> ws \<noteq> [] \<and> (\<forall>w\<in>set ws. w \<noteq> [] \<and> (\<forall>c\<in>set w. isLower (of_char c)))"
  by (auto simp: explicitWords_def isLower_def)

lemma explicitWords_distinct: "distinct (map fst explicitWords)"
  by (simp add: explicitWords_def)

lemma mentions_row:
  assumes "(l, ws) \<in> set explicitWords"
  shows "mentions l n \<longleftrightarrow> re_test (alts (map wordRe ws)) (toLowerCase n)"
proof -
  have m: "map_of explicitWords l = Some ws"
    using assms explicitWords_distinct by (rule_tac map_of_is_SomeI)
  have ok: "ws \<noteq> []" "\<forall>w\<in>set ws. w \<noteq> [] \<and> (\<forall>c\<in>set w. isLower (of_char c))"
    using explicitWords_ok [OF assms] by auto
  have "re_test (wordRe w) (toLowerCase n) \<longleftrightarrow> wholeWordIn (js w) (toLowerCase n)"
    if "w \<in> set ws" for w
    using that ok toLowerCase_no_upper by (intro re_test_wordRe) auto
  then show ?thesis
    using ok(1) by (auto simp: mentions_def m re_test_alts)
qed

lemma mentions_key: "mentions l n \<Longrightarrow> l \<in> set (map fst explicitWords)"
  by (auto simp: mentions_def split: option.splits dest: map_of_SomeD intro: rev_image_eqI)

lemma firstMatch_find:
  "\<forall>(l, ws)\<in>set T. P l \<longleftrightarrow> re_test (f ws) s
   \<Longrightarrow> firstMatch (map (\<lambda>(l, ws). (l, f ws)) T) s = List.find P (map fst T)"
  by (induction T) auto

lemma explicit_find:
  "detectExplicitLanguageInName n = List.find (\<lambda>k. mentions k n) (map fst explicitWords)"
  unfolding detectExplicitLanguageInName_def explicitPatterns_words
  by (rule firstMatch_find) (auto simp: mentions_row)

lemma explicit_found:
  assumes "mentions l n"
  shows "\<exists>l'. detectExplicitLanguageInName n = Some l' \<and> mentions l' n
              \<and> ((\<forall>k. mentions k n \<longrightarrow> k = l) \<longrightarrow> l' = l)"
proof -
  have "List.find (\<lambda>k. mentions k n) (map fst explicitWords) \<noteq> None"
    using assms mentions_key [OF assms] by (auto simp: find_None_iff)
  then obtain l' where f: "List.find (\<lambda>k. mentions k n) (map fst explicitWords) = Some l'"
    by auto
  then have "mentions l' n"
    by (auto simp: find_Some_iff)
  with f show ?thesis
    by (auto simp: explicit_find)
qed

lemma mentions_eval:
  "mentions k n \<longleftrightarrow>
     (k, True) \<in> set (map (\<lambda>(l, ws). (l, re_test (alts (map wordRe ws)) (toLowerCase n)))
                      explicitWords)"
proof
  assume m: "mentions k n"
  then obtain ws where "(k, ws) \<in> set explicitWords"
    using mentions_key [OF m] by auto
  then show "(k, True) \<in> set (map (\<lambda>(l, ws). (l, re_test (alts (map wordRe ws)) (toLowerCase n)))
                      explicitWords)"
    using m mentions_row by force
next
  assume "(k, True) \<in> set (map (\<lambda>(l, ws). (l, re_test (alts (map wordRe ws)) (toLowerCase n)))
                      explicitWords)"
  then show "mentions k n"
    using mentions_row by auto
qed

lemma mentions_tamilNews: "mentions k (js ''XYZ Tamil News'') \<longleftrightarrow> k = js ''tamil''"
  unfolding mentions_eval
  by (simp add: explicitWords_def class_defs re_defs str_defs)

lemma mentions_hindiTamil:
  "mentions k (js ''Hindi Tamil News'') \<longleftrightarrow> k = js ''tamil'' \<or> k = js ''hindi''"
  unfolding mentions_eval
  by (simp add: explicitWords_def class_defs re_defs str_defs)

text \<open>
  Claim C2, as stated, fails for a name that mentions more than one language: the name
  \<open>Hindi Tamil News\<close> contains the whole word \<open>hindi\<close>, and \<open>detectLanguage\<close> resolves
  it to \<open>tamil\<close>, the first language of the table whose pattern matches.
\<close>

theorem explicit_mention_counterexample:
  "mentions (js ''hindi'') (name hindiTamilChannel)
   \<and> rlanguage (detectLanguage offlineWorld hindiTamilChannel emptyCache) = js ''tamil''
   \<and> rsource (detectLanguage offlineWorld hindiTamilChannel emptyCache) = js ''name-explicit''
   \<and> js ''tamil'' \<noteq> js ''hindi''"
  by (simp add: hindiTamilChannel_def mentions_hindiTamil detectLanguage_def Let_def
      explicit_find explicitWords_def)

text \<open>
  Claim C2, amended. For every channel whose name mentions a language as a whole word,
  whatever the cache holds and the network answers, \<open>detectLanguage\<close> resolves to the
  first language, in the order of the table, that the name mentions (the mentioned
  language itself when the name mentions no other), with the source \<open>name-explicit\<close>
  and without sending a request; when no domain was extracted the cache is left as it
  was, and when a domain was extracted the cache is updated by \<open>set\<close>, so that its entry
  for the domain holds that language with the source \<open>name-explicit\<close>.
\<close>

theorem explicit_name_precedence:
  "mentions l (name ch) \<longrightarrow>
     (\<exists>l'. List.find (\<lambda>k. mentions k (name ch)) (map fst explicitWords) = Some l'
        \<and> ((\<forall>k. mentions k (name ch) \<longrightarrow> k = l) \<longrightarrow> l' = l)
        \<and> rlanguage (detectLanguage w ch c) = l'
        \<and> rsource (detectLanguage w ch c) = js ''name-explicit''
        \<and> requests (detectLanguage w ch c) = []
        \<and> (extractDomain (tvgId ch) = None \<longrightarrow> cacheAfter (detectLanguage w ch c) = c)
        \<and> (\<forall>d. extractDomain (tvgId ch) = Some d
              \<longrightarrow> cacheAfter (detectLanguage w ch c)
                    = cache_set (now_of w) c d l' (js ''name-explicit'')
                  \<and> cache (cacheAfter (detectLanguage w ch c)) d
                    = Some \<lparr>elanguage = l', esource = js ''name-explicit'',
                             timestamp = now_of w\<rparr>))"
proof
  assume "mentions l (name ch)"
  from explicit_found [OF this] obtain l' where
    e: "detectExplicitLanguageInName (name ch) = Some l'"
    and u: "(\<forall>k. mentions k (name ch) \<longrightarrow> k = l) \<longrightarrow> l' = l"
    by blast
  have f: "List.find (\<lambda>k. mentions k (name ch)) (map fst explicitWords) = Some l'"
    using e by (simp add: explicit_find)
  have r: "rlanguage (detectLanguage w ch c) = l'"
    "rsource (detectLanguage w ch c) = js ''name-explicit''"
    "requests (detectLanguage w ch c) = []"
    "extractDomain (tvgId ch) = None \<longrightarrow> cacheAfter (detectLanguage w ch c) = c"
    using e by (simp_all add: detectLanguage_def Let_def)
  have s: "\<forall>d. extractDomain (tvgId ch) = Some d
              \<longrightarrow> cacheAfter (detectLanguage w ch c)
                    = cache_set (now_of w) c d l' (js ''name-explicit'')
                  \<and> cache (cacheAfter (detectLanguage w ch c)) d
                    = Some \<lparr>elanguage = l', esource = js ''name-explicit'',
                             timestamp = now_of w\<rparr>"
    using e by (simp add: detectLanguage_def Let_def cache_set_entry)
  show "\<exists>l'. List.find (\<lambda>k. mentions k (name ch)) (map fst explicitWords) = Some l'
        \<and> ((\<forall>k. mentions k (name ch) \<longrightarrow> k = l) \<longrightarrow> l' = l)
        \<and> rlanguage (detectLanguage w ch c) = l'
        \<and> rsource (detectLanguage w ch c) = js ''name-explicit''
        \<and> requests (detectLanguage w ch c) = []
        \<and> (extractDomain (tvgId ch) = None \<longrightarrow> cacheAfter (detectLanguage w ch c) = c)
        \<and> (\<forall>d. extractDomain (tvgId ch) = Some d
              \<longrightarrow> cacheAfter (detectLanguage w ch c)
                    = cache_set (now_of w) c d l' (js ''name-explicit'')
                  \<and> cache (cacheAfter (detectLanguage w ch c)) d
                    = Some \<lparr>elanguage = l', esource = js ''name-explicit'',
                             timestamp = now_of w\<rparr>)"
    by (intro exI [of _ l'] conjI) (rule f u r s)+
qed

theorem explicit_name_precedence_witness:
  "mentions (js ''tamil'') (name tamilNewsChannel)
   \<and> cache exampleCache (js ''SunTV.in'')
       = Some \<lparr>elanguage = js ''hindi'', esource = js ''web'', timestamp = 0\<rparr>
   \<and> rlanguage (detectLanguage offlineWorld tamilNewsChannel exampleCache) = js ''tamil''
   \<and> rsource (detectLanguage offlineWorld tamilNewsChannel exampleCache) = js ''name-explicit''
   \<and> requests (detectLanguage offlineWorld tamilNewsChannel exampleCache) = []
   \<and> cache (cacheAfter (detectLanguage offlineWorld tamilNewsChannel exampleCache)) (js ''SunTV.in'')
       = Some \<lparr>elanguage = js ''tamil'', esource = js ''name-explicit'', timestamp = 0\<rparr>"
proof -
  have m: "mentions (js ''tamil'') (name tamilNewsChannel)"
    and only: "\<forall>k. mentions k (name tamilNewsChannel) \<longrightarrow> k = js ''tamil''"
    by (simp_all add: tamilNewsChannel_def mentions_tamilNews)
  have d: "extractDomain (tvgId tamilNewsChannel) = Some (js ''SunTV.in'')"
    by (simp add: tamilNewsChannel_def)
  have t: "now_of offlineWorld = 0"
    by (simp add: offlineWorld_def)
  have "\<exists>l'. List.find (\<lambda>k. mentions k (name tamilNewsChannel)) (map fst explicitWords) = Some l'
        \<and> ((\<forall>k. mentions k (name tamilNewsChannel) \<longrightarrow> k = js ''tamil'') \<longrightarrow> l' = js ''tamil'')
        \<and> rlanguage (detectLanguage offlineWorld tamilNewsChannel exampleCache) = l'
        \<and> rsource (detectLanguage offlineWorld tamilNewsChannel exampleCache) = js ''name-explicit''
        \<and> requests (detectLanguage offlineWorld tamilNewsChannel exampleCache) = []
        \<and> (extractDomain (tvgId tamilNewsChannel) = None
             \<longrightarrow> cacheAfter (detectLanguage offlineWorld tamilNewsChannel exampleCache) = exampleCache)
        \<and> (\<forall>d. extractDomain (tvgId tamilNewsChannel) = Some d
              \<longrightarrow> cacheAfter (detectLanguage offlineWorld tamilNewsChannel exampleCache)
                    = cache_set (now_of offlineWorld) exampleCache d l' (js ''name-explicit'')
                  \<and> cache (cacheAfter (detectLanguage offlineWorld tamilNewsChannel exampleCache)) d
                    = Some \<lparr>elanguage = l', esource = js ''name-explicit'',
                             timestamp = now_of offlineWorld\<rparr>)"
    using explicit_name_precedence [of "js ''tamil''" tamilNewsChannel offlineWorld exampleCache] m
    by (rule mp)
  then obtain l' where
    u: "(\<forall>k. mentions k (name tamilNewsChannel) \<longrightarrow> k = js ''tamil'') \<longrightarrow> l' = js ''tamil''"
    and r: "rlanguage (detectLanguage offlineWorld tamilNewsChannel exampleCache) = l'"
      "rsource (detectLanguage offlineWorld tamilNewsChannel exampleCache) = js ''name-explicit''"
      "requests (detectLanguage offlineWorld tamilNewsChannel exampleCache) = []"
    and s: "\<forall>d. extractDomain (tvgId tamilNewsChannel) = Some d
              \<longrightarrow> cacheAfter (detectLanguage offlineWorld tamilNewsChannel exampleCache)
                    = cache_set (now_of offlineWorld) exampleCache d l' (js ''name-explicit'')
                  \<and> cache (cacheAfter (detectLanguage offlineWorld tamilNewsChannel exampleCache)) d
                    = Some \<lparr>elanguage = l', esource = js ''name-explicit'',
                             timestamp = now_of offlineWorld\<rparr>"
    by (elim exE conjE) (rule that; assumption)
  have l: "l' = js ''tamil''"
    using u only by (rule mp)
  have "cache exampleCache (js ''SunTV.in'')
       = Some \<lparr>elanguage = js ''hindi'', esource = js ''web'', timestamp = 0\<rparr>"
    by (simp add: exampleCache_def)
  then show ?thesis
    using m r s d l t by (simp add: cache_set_entry)
qed

end
